theory Spec2Isabelle
  imports Main
begin

section \<open>Timestamps\<close>

text \<open>
  A Python \<^verbatim>\<open>datetime\<close> is its wall-clock reading, counted in microseconds since
  0001-01-01T00:00:00, together with an optional \<^verbatim>\<open>tzinfo\<close>. The only time zone the
  backend uses is \<^verbatim>\<open>datetime.UTC\<close>. A value without \<^verbatim>\<open>tzinfo\<close> is naive, one with it
  is aware.
\<close>

datatype timezone = UTC

record datetime =
  dt_us :: int
  tzinfo :: "timezone option"

datatype py_error =
    TypeError
  | OverflowError
  | IntegrityError
  | DBAPIError
  | Failed string py_error

text \<open>\<^verbatim>\<open>datetime.now(UTC)\<close>: the clock reading \<open>now\<close> is an input of every operation.\<close>

definition datetime_now :: "int \<Rightarrow> datetime" where
  "datetime_now now = \<lparr>dt_us = now, tzinfo = Some UTC\<rparr>"

text \<open>\<^verbatim>\<open>d.replace(tzinfo=tz)\<close> changes the attached zone and nothing else.\<close>

definition replace_tzinfo :: "datetime \<Rightarrow> timezone option \<Rightarrow> datetime" where
  "replace_tzinfo d tz = d\<lparr>tzinfo := tz\<rparr>"

text \<open>
  \<^verbatim>\<open>a < b\<close> on datetimes: two naive values compare their readings, two aware values
  compare their instants (both zones are UTC here), and a naive value against an aware one
  raises \<^verbatim>\<open>TypeError\<close>.
\<close>

definition dt_less :: "datetime \<Rightarrow> datetime \<Rightarrow> py_error + bool" where
  "dt_less a b =
     (if tzinfo a = None \<and> tzinfo b = None then Inr (dt_us a < dt_us b)
      else if tzinfo a = None then Inl TypeError
      else if tzinfo b = None then Inl TypeError
      else Inr (dt_us a < dt_us b))"

text \<open>
  \<^verbatim>\<open>d + timedelta(days=n)\<close>. \<^verbatim>\<open>timedelta\<close> rejects more than 999999999 days in either
  direction, and the sum must stay between \<^verbatim>\<open>datetime.min\<close> and \<^verbatim>\<open>datetime.max\<close>
  (ordinal days 1 to 3652059); both failures are \<^verbatim>\<open>OverflowError\<close>. The zone of \<open>d\<close> is kept.
\<close>

definition us_per_day :: int where
  "us_per_day = 86400000000"

definition max_us :: int where
  "max_us = 3652059 * us_per_day"

definition add_days :: "datetime \<Rightarrow> int \<Rightarrow> py_error + datetime" where
  "add_days d n =
     (if n < - 999999999 then Inl OverflowError
      else if 999999999 < n then Inl OverflowError
      else if dt_us d + n * us_per_day < 0 then Inl OverflowError
      else if max_us \<le> dt_us d + n * us_per_day then Inl OverflowError
      else Inr (d\<lparr>dt_us := dt_us d + n * us_per_day\<rparr>))"

text \<open>
  \<^verbatim>\<open>d.isoformat()\<close> is kept symbolic: the text rendered from \<open>d\<close>. The rendering of an
  aware value ends in its offset (\<^verbatim>\<open>+00:00\<close>), that of a naive value does not.
\<close>

datatype isostring = isoformat datetime

section \<open>Tables (models.py)\<close>

text \<open>
  The three mapped classes. Field names are those of the source, with a prefix where two
  classes share a name: \<open>u_id\<close> is \<^verbatim>\<open>User.id\<close>, \<open>l_id\<close> and \<open>l_is_used\<close> are
  \<^verbatim>\<open>License.id\<close> and \<^verbatim>\<open>License.is_used\<close> (an Integer column), \<open>c_id\<close> is
  \<^verbatim>\<open>LicenseCode.id\<close>. Nullable DateTime and foreign-key columns are options. A row holds
  what the last accepted commit stored.
\<close>

record user =
  u_id :: int
  username :: string
  password :: string
  is_active :: bool
  expiration_date :: "datetime option"

record license =
  l_id :: int
  key :: string
  l_is_used :: int
  duration_days :: int

record license_code =
  c_id :: int
  code :: string
  is_used :: bool
  created_at :: "datetime option"
  expires_at :: "datetime option"
  used_by :: "int option"

record db =
  users :: "user list"
  licenses :: "license list"
  license_codes :: "license_code list"

text \<open>
  \<^verbatim>\<open>select(...).where(...)\<close> followed by \<^verbatim>\<open>.scalars().first()\<close>, and \<^verbatim>\<open>db.get\<close>:
  the position of the first row that satisfies the condition. The object the ORM hands
  out is that row, so an attribute assignment followed by a commit rewrites the row at
  that position.
\<close>

fun first_index :: "('a \<Rightarrow> bool) \<Rightarrow> 'a list \<Rightarrow> nat option" where
  "first_index P [] = None"
| "first_index P (x # xs) =
     (if P x then Some 0 else map_option Suc (first_index P xs))"

text \<open>The key a table hands to a new row: one more than the largest key in use.\<close>

definition next_id :: "int list \<Rightarrow> int" where
  "next_id ids = fold max ids 0 + 1"

text \<open>
  \<^verbatim>\<open>await db.commit()\<close>. Whether the store accepts the transaction is an input
  (\<open>ok\<close>); a refused commit raises and leaves the stored tables as they were.
\<close>

definition commit :: "bool \<Rightarrow> db \<Rightarrow> py_error + db" where
  "commit ok pending = (if ok then Inr pending else Inl DBAPIError)"

section \<open>LicenseService (services/license\_service.py)\<close>

type_synonym service_result = "bool \<times> string \<times> isostring option"

text \<open>
  \<^verbatim>\<open>create_license_code\<close>. \<open>gen\<close> is the token \<^verbatim>\<open>generate_code()\<close> returned. The
  \<^verbatim>\<open>unique=True\<close> constraint on \<^verbatim>\<open>LicenseCode.code\<close> makes the commit of a token that is
  already stored fail. Every exception is caught, rolled back and raised again.
\<close>

definition create_license_code ::
  "db \<Rightarrow> int \<Rightarrow> bool \<Rightarrow> string \<Rightarrow> int \<Rightarrow> (py_error + license_code) \<times> db" where
  "create_license_code d now ok gen days =
     (let current_time = replace_tzinfo (datetime_now now) None in
      case add_days current_time days of
        Inl e \<Rightarrow> (Inl (Failed ''Failed to create license code'' e), d)
      | Inr expires \<Rightarrow>
          (let lc = \<lparr>c_id = next_id (map c_id (license_codes d)), code = gen,
                     is_used = False, created_at = Some current_time,
                     expires_at = Some expires, used_by = None\<rparr> in
           if gen \<in> set (map code (license_codes d))
           then (Inl (Failed ''Failed to create license code'' IntegrityError), d)
           else case commit ok (d\<lparr>license_codes := license_codes d @ [lc]\<rparr>) of
                  Inl e \<Rightarrow> (Inl (Failed ''Failed to create license code'' e), d)
                | Inr d' \<Rightarrow> (Inr lc, d')))"

text \<open>
  \<^verbatim>\<open>validate_code\<close>. The comparison of \<^verbatim>\<open>expires_at\<close> with the naive current time
  raises \<^verbatim>\<open>TypeError\<close> when the stored value is NULL or aware.
\<close>

definition validate_code ::
  "db \<Rightarrow> int \<Rightarrow> string \<Rightarrow> (py_error + service_result) \<times> db" where
  "validate_code d now c =
     (case first_index (\<lambda>r. code r = c) (license_codes d) of
        None \<Rightarrow> (Inr (False, ''Invalid license code'', None), d)
      | Some i \<Rightarrow>
          (let lc = license_codes d ! i in
           if is_used lc then (Inr (False, ''License code already used'', None), d)
           else
             (let current_time = replace_tzinfo (datetime_now now) None in
              case expires_at lc of
                None \<Rightarrow> (Inl (Failed ''Failed to validate license code'' TypeError), d)
              | Some e \<Rightarrow>
                  (case dt_less e current_time of
                     Inl err \<Rightarrow> (Inl (Failed ''Failed to validate license code'' err), d)
                   | Inr True \<Rightarrow> (Inr (False, ''License code has expired'', None), d)
                   | Inr False \<Rightarrow>
                       (Inr (True, ''License code is valid'',
                             map_option isoformat (expires_at lc)), d)))))"

text \<open>\<^verbatim>\<open>activate_code\<close>.\<close>

definition activate_code ::
  "db \<Rightarrow> int \<Rightarrow> bool \<Rightarrow> string \<Rightarrow> int \<Rightarrow> (py_error + service_result) \<times> db" where
  "activate_code d now ok c uid =
     (case validate_code d now c of
        (Inl e, d1) \<Rightarrow> (Inl (Failed ''Failed to activate license code'' e), d)
      | (Inr (is_valid, message, expires), d1) \<Rightarrow>
          if \<not> is_valid then (Inr (False, message, None), d1)
          else
            (case first_index (\<lambda>r. code r = c) (license_codes d1) of
               None \<Rightarrow>
                 (Inr (False,
                    ''Internal error: License code or user not found after validation.'',
                    None), d1)
             | Some i \<Rightarrow>
                 (case first_index (\<lambda>u. u_id u = uid) (users d1) of
                    None \<Rightarrow>
                      (Inr (False,
                         ''Internal error: License code or user not found after validation.'',
                         None), d1)
                  | Some j \<Rightarrow>
                      (let lc = (license_codes d1 ! i)\<lparr>is_used := True, used_by := Some uid\<rparr>;
                           u = (users d1 ! j)\<lparr>is_active := True,
                                               expiration_date := expires_at lc\<rparr>
                       in case commit ok (d1\<lparr>license_codes := (license_codes d1)[i := lc],
                                               users := (users d1)[j := u]\<rparr>) of
                            Inl e \<Rightarrow> (Inl (Failed ''Failed to activate license code'' e), d)
                          | Inr d' \<Rightarrow>
                              (Inr (True, ''License activated successfully'',
                                    map_option isoformat (expires_at lc)), d')))))"

section \<open>Routes\<close>

text \<open>
  A handler either returns its body or raises. \<^verbatim>\<open>HTTPException(status, detail)\<close> carries
  a status and a detail, which is a fixed message or, in the generation route, the text of
  the caught exception (\<^verbatim>\<open>str(e)\<close>, kept symbolic). An exception a handler does
  not catch leaves it as it is.
\<close>

datatype detail = Detail string | StrOf py_error

datatype http_error = HTTPException nat detail | Unhandled py_error

subsection \<open>routes/license.py\<close>

definition generate_license_code ::
  "db \<Rightarrow> int \<Rightarrow> bool \<Rightarrow> string \<Rightarrow> int \<Rightarrow> (http_error + license_code) \<times> db" where
  "generate_license_code d now ok gen days =
     (case create_license_code d now ok gen days of
        (Inl e, d') \<Rightarrow> (Inl (HTTPException 500 (StrOf e)), d')
      | (Inr lc, d') \<Rightarrow> (Inr lc, d'))"

definition validate_license_code ::
  "db \<Rightarrow> int \<Rightarrow> string \<Rightarrow> (http_error + service_result) \<times> db" where
  "validate_license_code d now c =
     (case validate_code d now c of
        (Inl e, d') \<Rightarrow> (Inl (Unhandled e), d')
      | (Inr (is_valid, message, expires), d') \<Rightarrow>
          if \<not> is_valid then (Inl (HTTPException 400 (Detail message)), d')
          else (Inr (is_valid, message, expires), d'))"

definition activate_license_code ::
  "db \<Rightarrow> int \<Rightarrow> bool \<Rightarrow> string \<Rightarrow> int \<Rightarrow> (http_error + string \<times> isostring option) \<times> db" where
  "activate_license_code d now ok c uid =
     (case activate_code d now ok c uid of
        (Inl e, d') \<Rightarrow> (Inl (Unhandled e), d')
      | (Inr (success, message, expires), d') \<Rightarrow>
          if \<not> success then (Inl (HTTPException 400 (Detail message)), d')
          else (Inr (message, expires), d'))"

subsection \<open>routes/login.py\<close>

text \<open>
  The two bodies of \<^verbatim>\<open>login\<close>: the 403 \<^verbatim>\<open>JSONResponse\<close> with \<^verbatim>\<open>detail\<close> and
  \<^verbatim>\<open>user_id\<close>, and the success body with \<^verbatim>\<open>message\<close> and \<^verbatim>\<open>expiration_date\<close>.
  \<open>verify\<close> is \<^verbatim>\<open>verify_password\<close> of core/hashing.py (bcrypt, not modelled). An
  exception other than \<^verbatim>\<open>HTTPException\<close> becomes status 500; the session is closed
  without a commit, so nothing of the request is stored.
\<close>

datatype login_response =
    JSONResponse nat string int
  | LoginBody string "isostring option"

definition login ::
  "(string \<Rightarrow> string \<Rightarrow> bool) \<Rightarrow> db \<Rightarrow> int \<Rightarrow> bool \<Rightarrow> string \<Rightarrow> string
     \<Rightarrow> (http_error + login_response) \<times> db" where
  "login verify d now ok name pw =
     (case first_index (\<lambda>u. username u = name) (users d) of
        None \<Rightarrow> (Inl (HTTPException 401 (Detail ''Invalid Credentials'')), d)
      | Some j \<Rightarrow>
          (let db_user = users d ! j in
           if \<not> verify pw (password db_user)
           then (Inl (HTTPException 401 (Detail ''Invalid Credentials'')), d)
           else if \<not> is_active db_user
           then (Inr (JSONResponse 403
                        ''Account not activated. Please enter activation code.''
                        (u_id db_user)), d)
           else
             (case expiration_date db_user of
                None \<Rightarrow> (Inr (LoginBody ''Login Successful'' None), d)
              | Some e \<Rightarrow>
                  (case dt_less (replace_tzinfo e (Some UTC)) (datetime_now now) of
                     Inl err \<Rightarrow>
                       (Inl (HTTPException 500 (Detail ''Internal Server Error'')), d)
                   | Inr True \<Rightarrow>
                       (case commit ok
                               (d\<lparr>users := (users d)
                                     [j := db_user\<lparr>is_active := False,
                                                    expiration_date := None\<rparr>]\<rparr>) of
                          Inl err \<Rightarrow>
                            (Inl (HTTPException 500 (Detail ''Internal Server Error'')), d)
                        | Inr d' \<Rightarrow>
                            (Inr (JSONResponse 403
                                    ''Subscription expired. Please renew your license.''
                                    (u_id db_user)), d'))
                   | Inr False \<Rightarrow>
                       (Inr (LoginBody ''Login Successful'' (Some (isoformat e))), d)))))"

subsection \<open>routes/verify\_license.py\<close>

text \<open>
  \<^verbatim>\<open>expiration_date\<close> is declared \<^verbatim>\<open>Column(DateTime)\<close> in models.py, without
  \<^verbatim>\<open>timezone=True\<close>: of a datetime bound to it an accepted commit keeps the reading and
  no zone. \<^verbatim>\<open>verify_license\<close> is the one handler that assigns an aware value
  (\<^verbatim>\<open>datetime.now(UTC) + timedelta(...)\<close>) to such a column; the other handlers assign
  values that are naive already. The session object keeps the assigned value
  (\<^verbatim>\<open>expire_on_commit=False\<close>), which is what the response renders. A driver that refuses
  an aware value for the column makes the commit raise: the case \<open>ok = False\<close>.
\<close>

definition stored_DateTime :: "datetime \<Rightarrow> datetime" where
  "stored_DateTime t = replace_tzinfo t None"

definition verify_license ::
  "db \<Rightarrow> int \<Rightarrow> bool \<Rightarrow> string \<Rightarrow> string \<Rightarrow> (http_error + string \<times> isostring) \<times> db" where
  "verify_license d now ok name k =
     (case first_index (\<lambda>l. key l = k) (licenses d) of
        None \<Rightarrow> (Inl (HTTPException 400 (Detail ''License key is invalid'')), d)
      | Some i \<Rightarrow>
          (let license_entry = licenses d ! i in
           if l_is_used license_entry = 1
           then (Inl (HTTPException 400 (Detail ''License key has already been used'')), d)
           else
             (case first_index (\<lambda>u. username u = name) (users d) of
                None \<Rightarrow> (Inl (HTTPException 404 (Detail ''User not found'')), d)
              | Some j \<Rightarrow>
                  (case add_days (datetime_now now) (duration_days license_entry) of
                     Inl err \<Rightarrow>
                       (Inl (HTTPException 500 (Detail ''Internal Server Error'')), d)
                   | Inr expiration \<Rightarrow>
                       (let u = (users d ! j)\<lparr>is_active := True,
                                               expiration_date := Some expiration\<rparr>
                        in case commit ok
                                  (d\<lparr>users := (users d)
                                       [j := u\<lparr>expiration_date :=
                                                 Some (stored_DateTime expiration)\<rparr>],
                                     licenses := (licenses d)
                                       [i := license_entry\<lparr>l_is_used := 1\<rparr>]\<rparr>) of
                             Inl err \<Rightarrow>
                               (Inl (HTTPException 500 (Detail ''Internal Server Error'')), d)
                           | Inr d' \<Rightarrow>
                               (Inr (''Account activated successfully'',
                                     isoformat expiration), d'))))))"

subsection \<open>routes/signup.py\<close>

text \<open>\<open>hash\<close> is \<^verbatim>\<open>hash_password\<close> of core/hashing.py.\<close>

definition signup ::
  "(string \<Rightarrow> string) \<Rightarrow> db \<Rightarrow> bool \<Rightarrow> string \<Rightarrow> string \<Rightarrow> (http_error + string \<times> int) \<times> db" where
  "signup hash d ok name pw =
     (case first_index (\<lambda>u. username u = name) (users d) of
        Some j \<Rightarrow> (Inl (HTTPException 409 (Detail ''Username already exists'')), d)
      | None \<Rightarrow>
          (let new_user = \<lparr>u_id = next_id (map u_id (users d)), username = name,
                           password = hash pw, is_active = False,
                           expiration_date = None\<rparr>
           in case commit ok (d\<lparr>users := users d @ [new_user]\<rparr>) of
                Inl err \<Rightarrow> (Inl (HTTPException 500 (Detail ''Internal Server Error'')), d)
              | Inr d' \<Rightarrow> (Inr (''User Created Successfully'', u_id new_user), d')))"

section \<open>Histories of requests\<close>

text \<open>
  The requests that reach the stored tables, each with the clock reading and the commit
  outcome of its handling. \<open>handle\<close> is the effect of one request on the tables,
  \<open>run\<close> that of a sequence, oldest first.
\<close>

datatype request =
    Generate string int
  | Validate string
  | Activate string int
  | Login string string
  | VerifyLicense string string
  | Signup string string

fun handle ::
  "(string \<Rightarrow> string) \<Rightarrow> (string \<Rightarrow> string \<Rightarrow> bool) \<Rightarrow> db \<Rightarrow> int \<times> bool \<times> request \<Rightarrow> db" where
  "handle hash verify d (now, ok, Generate gen days) =
     snd (generate_license_code d now ok gen days)"
| "handle hash verify d (now, ok, Validate c) = snd (validate_license_code d now c)"
| "handle hash verify d (now, ok, Activate c uid) =
     snd (activate_license_code d now ok c uid)"
| "handle hash verify d (now, ok, Login name pw) = snd (login verify d now ok name pw)"
| "handle hash verify d (now, ok, VerifyLicense name k) =
     snd (verify_license d now ok name k)"
| "handle hash verify d (now, ok, Signup name pw) = snd (signup hash d ok name pw)"

definition run ::
  "(string \<Rightarrow> string) \<Rightarrow> (string \<Rightarrow> string \<Rightarrow> bool) \<Rightarrow> db \<Rightarrow> (int \<times> bool \<times> request) list \<Rightarrow> db" where
  "run hash verify d rs = foldl (handle hash verify) d rs"

section \<open>Derived notions\<close>

text \<open>
  A code is redeemed when the row a lookup of it returns has \<^verbatim>\<open>is_used\<close> set; a grant
  key is used when the row a lookup of it returns has \<^verbatim>\<open>is_used == 1\<close>.
\<close>

definition redeemed :: "string \<Rightarrow> db \<Rightarrow> bool" where
  "redeemed c d =
     (case first_index (\<lambda>r. code r = c) (license_codes d) of
        None \<Rightarrow> False
      | Some i \<Rightarrow> is_used (license_codes d ! i))"

definition key_used :: "string \<Rightarrow> db \<Rightarrow> bool" where
  "key_used k d =
     (case first_index (\<lambda>l. key l = k) (licenses d) of
        None \<Rightarrow> False
      | Some i \<Rightarrow> l_is_used (licenses d ! i) = 1)"

text \<open>
  A stored timestamp follows the convention of \<^verbatim>\<open>create_license_code\<close> when it is
  present and naive.
\<close>

definition stored_naive :: "datetime option \<Rightarrow> bool" where
  "stored_naive x = (case x of None \<Rightarrow> False | Some e \<Rightarrow> tzinfo e = None)"

definition codes_naive :: "db \<Rightarrow> bool" where
  "codes_naive d = list_all (\<lambda>r. stored_naive (expires_at r)) (license_codes d)"

text \<open>
  The stored timestamps follow the convention when each of them that is not NULL is naive:
  \<^verbatim>\<open>created_at\<close> and \<^verbatim>\<open>expires_at\<close> of every code, \<^verbatim>\<open>expiration_date\<close> of every
  account.
\<close>

definition naive_or_null :: "datetime option \<Rightarrow> bool" where
  "naive_or_null x = (case x of None \<Rightarrow> True | Some e \<Rightarrow> tzinfo e = None)"

definition timestamps_naive :: "db \<Rightarrow> bool" where
  "timestamps_naive d =
     (list_all (\<lambda>r. naive_or_null (created_at r) \<and> naive_or_null (expires_at r))
        (license_codes d)
      \<and> list_all (\<lambda>u. naive_or_null (expiration_date u)) (users d))"

text \<open>The data-model invariant of a license code: \<^verbatim>\<open>expires_at > created_at\<close>.\<close>

definition expires_after_created :: "license_code \<Rightarrow> bool" where
  "expires_after_created lc =
     (case created_at lc of
        None \<Rightarrow> False
      | Some a \<Rightarrow> (case expires_at lc of None \<Rightarrow> False | Some b \<Rightarrow> dt_us a < dt_us b))"

definition empty_db :: db where
  "empty_db = \<lparr>users = [], licenses = [], license_codes = []\<rparr>"

section \<open>Sample data\<close>

text \<open>
  Tables and requests for the concrete instances below. Clock readings: 63871286400000000
  is 2025-01-01T00:00:00, 63871200000000000 is 2024-12-31, 63873878400000000 is
  2025-01-31, 63868608000000000 is 2024-12-01. \<open>plain_hash\<close> and \<open>plain_verify\<close>
  stand in for bcrypt.
\<close>

definition plain_hash :: "string \<Rightarrow> string" where
  "plain_hash pw = CHR ''#'' # pw"

definition plain_verify :: "string \<Rightarrow> string \<Rightarrow> bool" where
  "plain_verify pw h = (h = CHR ''#'' # pw)"

definition sample_users :: "user list" where
  "sample_users =
     [\<lparr>u_id = 1, username = ''alice'', password = ''#a'', is_active = False,
       expiration_date = None\<rparr>,
      \<lparr>u_id = 2, username = ''bob'', password = ''#b'', is_active = True,
       expiration_date = Some \<lparr>dt_us = 63871200000000000, tzinfo = None\<rparr>\<rparr>,
      \<lparr>u_id = 3, username = ''carol'', password = ''#c'', is_active = False,
       expiration_date = Some \<lparr>dt_us = 63868608000000000, tzinfo = None\<rparr>\<rparr>]"

definition sample_licenses :: "license list" where
  "sample_licenses =
     [\<lparr>l_id = 1, key = ''K-FRESH'', l_is_used = 0, duration_days = 30\<rparr>,
      \<lparr>l_id = 2, key = ''K-USED'', l_is_used = 1, duration_days = 30\<rparr>]"

definition sample_codes :: "license_code list" where
  "sample_codes =
     [\<lparr>c_id = 1, code = ''FRESH'', is_used = False,
       created_at = Some \<lparr>dt_us = 63871200000000000, tzinfo = None\<rparr>,
       expires_at = Some \<lparr>dt_us = 63873878400000000, tzinfo = None\<rparr>, used_by = None\<rparr>,
      \<lparr>c_id = 2, code = ''SPENT'', is_used = True,
       created_at = Some \<lparr>dt_us = 63871200000000000, tzinfo = None\<rparr>,
       expires_at = Some \<lparr>dt_us = 63873878400000000, tzinfo = None\<rparr>, used_by = Some 2\<rparr>,
      \<lparr>c_id = 3, code = ''STALE'', is_used = False,
       created_at = Some \<lparr>dt_us = 63868608000000000, tzinfo = None\<rparr>,
       expires_at = Some \<lparr>dt_us = 63871200000000000, tzinfo = None\<rparr>, used_by = None\<rparr>]"

definition sample_db :: db where
  "sample_db = \<lparr>users = sample_users, licenses = sample_licenses,
                 license_codes = sample_codes\<rparr>"

definition sample_history :: "(int \<times> bool \<times> request) list" where
  "sample_history =
     [(63871286400000000, True, Activate ''SPENT'' 1),
      (63871286400000000, True, Generate ''FRESH2'' 30),
      (63871286400000000, True, VerifyLicense ''alice'' ''K-USED''),
      (63871286400000000, True, Activate ''FRESH'' 1)]"

section \<open>Lookups\<close>

lemma first_index_Some_less:
  "first_index P xs = Some i \<Longrightarrow> i < length xs"
  by (induction xs arbitrary: i) (auto split: if_splits)

lemma first_index_same:
  "length ys = length xs \<Longrightarrow> (\<And>k. k < length xs \<Longrightarrow> P (ys ! k) = P (xs ! k))
     \<Longrightarrow> first_index P ys = first_index P xs"
proof (induction xs arbitrary: ys)
  case Nil
  then show ?case by simp
next
  case (Cons x xs)
  then obtain y ys' where ys: "ys = y # ys'" by (cases ys) auto
  have h0: "P y = P x" using Cons.prems(2) [of 0] ys by simp
  have "first_index P ys' = first_index P xs"
  proof (rule Cons.IH)
    show "length ys' = length xs" using Cons.prems(1) ys by simp
  next
    fix k assume "k < length xs"
    then show "P (ys' ! k) = P (xs ! k)" using Cons.prems(2) [of "Suc k"] ys by simp
  qed
  with h0 ys show ?case by simp
qed

lemma first_index_update:
  "i < length xs \<Longrightarrow> P r = P (xs ! i) \<Longrightarrow> first_index P (xs[i := r]) = first_index P xs"
  by (rule first_index_same) (auto simp: nth_list_update)

lemma first_index_append:
  "first_index P xs = Some i \<Longrightarrow> first_index P (xs @ ys) = Some i"
  by (induction xs arbitrary: i) (auto split: if_splits)

lemma first_index_append_nth:
  "first_index P xs = Some i \<Longrightarrow> (xs @ ys) ! i = xs ! i"
  by (simp add: first_index_Some_less nth_append)


lemma redeemed_same:
  "license_codes d' = license_codes d \<Longrightarrow> redeemed c d' = redeemed c d"
  by (auto simp: redeemed_def split: option.splits)

lemma redeemed_append:
  assumes "redeemed c d" and "license_codes d' = license_codes d @ ys"
  shows "redeemed c d'"
proof -
  from assms(1) obtain i where i: "first_index (\<lambda>r. code r = c) (license_codes d) = Some i"
    and u: "is_used (license_codes d ! i)"
    by (auto simp: redeemed_def split: option.splits)
  show ?thesis
    using i u assms(2) first_index_append [OF i, of ys] first_index_append_nth [OF i, of ys]
    by (simp add: redeemed_def)
qed

lemma redeemed_update:
  assumes "redeemed c d" and "k < length (license_codes d)"
    and "license_codes d' =
           (license_codes d)[k := (license_codes d ! k)\<lparr>is_used := True, used_by := x\<rparr>]"
  shows "redeemed c d'"
proof -
  from assms(1) obtain i where i: "first_index (\<lambda>r. code r = c) (license_codes d) = Some i"
    and u: "is_used (license_codes d ! i)"
    by (auto simp: redeemed_def split: option.splits)
  have "first_index (\<lambda>r. code r = c) (license_codes d') = Some i"
    using assms(2,3) i by (simp add: first_index_update)
  moreover have "is_used (license_codes d' ! i)"
    using assms(2,3) u first_index_Some_less [OF i] by (cases "i = k") simp_all
  ultimately show ?thesis by (simp add: redeemed_def)
qed

lemma validate_code_snd: "snd (validate_code d now c) = d"
  by (simp add: validate_code_def Let_def split: option.splits sum.splits bool.splits)

lemma activate_code_effect:
  "snd (activate_code d now ok c uid) = d \<or>
   (\<exists>i j u. i < length (license_codes d) \<and>
      snd (activate_code d now ok c uid) =
        d\<lparr>license_codes :=
             (license_codes d)[i := (license_codes d ! i)\<lparr>is_used := True, used_by := Some uid\<rparr>],
           users := (users d)[j := u]\<rparr>)"
proof (cases "validate_code d now c")
  case (Pair r d1)
  then have d1: "d1 = d" using validate_code_snd [of d now c] by simp
  show ?thesis
  proof (cases r)
    case (Inl e)
    with Pair show ?thesis by (simp add: activate_code_def)
  next
    case (Inr t)
    obtain b m x where t: "t = (b, m, x)" by (cases t)
    show ?thesis
    proof (cases "first_index (\<lambda>r. code r = c) (license_codes d)")
      case None
      with Pair Inr t d1 show ?thesis by (simp add: activate_code_def)
    next
      case (Some i)
      note i = first_index_Some_less [OF Some]
      show ?thesis
      proof (cases "first_index (\<lambda>u. u_id u = uid) (users d)")
        case None
        with Pair Inr t d1 Some show ?thesis by (simp add: activate_code_def)
      next
        case (Some j)
        show ?thesis
        proof (cases "b \<and> ok")
          case False
          with Pair Inr t d1 \<open>first_index (\<lambda>r. code r = c) (license_codes d) = Some i\<close> Some
          show ?thesis by (auto simp: activate_code_def commit_def Let_def)
        next
          case True
          with Pair Inr t d1 \<open>first_index (\<lambda>r. code r = c) (license_codes d) = Some i\<close> Some i
          show ?thesis
            by (intro disjI2 exI [of _ i] exI [of _ j]) (auto simp: activate_code_def commit_def Let_def)
        qed
      qed
    qed
  qed
qed


lemma create_license_code_effect:
  "snd (create_license_code d now ok gen days) = d \<or>
   (\<exists>lc. snd (create_license_code d now ok gen days) =
            d\<lparr>license_codes := license_codes d @ [lc]\<rparr>)"
  by (cases ok) (auto simp: create_license_code_def commit_def Let_def split: sum.splits)


lemma login_tables:
  "license_codes (snd (login verify d now ok name pw)) = license_codes d \<and>
   licenses (snd (login verify d now ok name pw)) = licenses d"
  by (cases ok)
     (auto simp: login_def commit_def Let_def split: option.splits sum.splits bool.splits)


lemma signup_tables:
  "license_codes (snd (signup hash d ok name pw)) = license_codes d \<and>
   licenses (snd (signup hash d ok name pw)) = licenses d"
  by (cases ok) (auto simp: signup_def commit_def Let_def split: option.splits)


lemma verify_license_effect:
  "license_codes (snd (verify_license d now ok name k)) = license_codes d \<and>
   (licenses (snd (verify_license d now ok name k)) = licenses d \<or>
    (\<exists>i. i < length (licenses d) \<and>
       licenses (snd (verify_license d now ok name k)) =
         (licenses d)[i := (licenses d ! i)\<lparr>l_is_used := 1\<rparr>]))"
proof (cases "first_index (\<lambda>l. key l = k) (licenses d)")
  case None
  then show ?thesis by (simp add: verify_license_def)
next
  case (Some i)
  note i = first_index_Some_less [OF Some]
  show ?thesis
  proof (cases ok)
    case True
    with Some i show ?thesis
      by (auto simp: verify_license_def commit_def Let_def split: option.splits sum.splits)
  next
    case False
    with Some show ?thesis
      by (auto simp: verify_license_def commit_def Let_def split: option.splits sum.splits)
  qed
qed


lemma generate_license_code_snd:
  "snd (generate_license_code d now ok gen days) = snd (create_license_code d now ok gen days)"
  by (simp add: generate_license_code_def split: prod.splits sum.splits)


lemma validate_license_code_snd: "snd (validate_license_code d now c) = d"
  using validate_code_snd [of d now c]
  by (auto simp: validate_license_code_def split: prod.splits sum.splits)


lemma activate_license_code_snd:
  "snd (activate_license_code d now ok c uid) = snd (activate_code d now ok c uid)"
  by (auto simp: activate_license_code_def split: prod.splits sum.splits)

lemma redeemed_handle:
  assumes "redeemed c d"
  shows "redeemed c (handle hash verify d r)"
proof -
  obtain now ok q where r: "r = (now, ok, q)" by (cases r)
  show ?thesis
  proof (cases q)
    case (Generate gen days)
    have h: "handle hash verify d r = snd (create_license_code d now ok gen days)"
      by (simp add: r Generate generate_license_code_snd)
    from create_license_code_effect [of d now ok gen days]
    have "redeemed c (snd (create_license_code d now ok gen days))"
    proof (elim disjE exE)
      assume "snd (create_license_code d now ok gen days) = d"
      with assms show ?thesis by simp
    next
      fix lc
      assume "snd (create_license_code d now ok gen days) =
                d\<lparr>license_codes := license_codes d @ [lc]\<rparr>"
      then have "license_codes (snd (create_license_code d now ok gen days)) =
                   license_codes d @ [lc]" by simp
      then show ?thesis by (rule redeemed_append [OF assms])
    qed
    with h show ?thesis by simp
  next
    case (Validate c')
    have "handle hash verify d r = d"
      by (simp add: r Validate validate_license_code_snd)
    with assms show ?thesis by simp
  next
    case (Activate c' uid)
    have h: "handle hash verify d r = snd (activate_code d now ok c' uid)"
      by (simp add: r Activate activate_license_code_snd)
    from activate_code_effect [of d now ok c' uid]
    have "redeemed c (snd (activate_code d now ok c' uid))"
    proof (elim disjE exE conjE)
      assume "snd (activate_code d now ok c' uid) = d"
      with assms show ?thesis by simp
    next
      fix i j u
      assume i: "i < length (license_codes d)"
        and e: "snd (activate_code d now ok c' uid) =
                d\<lparr>license_codes :=
                     (license_codes d)[i := (license_codes d ! i)\<lparr>is_used := True, used_by := Some uid\<rparr>],
                   users := (users d)[j := u]\<rparr>"
      from e have "license_codes (snd (activate_code d now ok c' uid)) =
                (license_codes d)[i := (license_codes d ! i)\<lparr>is_used := True, used_by := Some uid\<rparr>]"
        by simp
      then show ?thesis by (rule redeemed_update [OF assms i])
    qed
    with h show ?thesis by simp
  next
    case (Login name pw)
    have h: "handle hash verify d r = snd (login verify d now ok name pw)"
      by (simp add: r Login)
    have "license_codes (snd (login verify d now ok name pw)) = license_codes d"
      by (simp add: login_tables)
    then have "redeemed c (snd (login verify d now ok name pw)) = redeemed c d"
      by (rule redeemed_same)
    with h assms show ?thesis by simp
  next
    case (VerifyLicense name k)
    have h: "handle hash verify d r = snd (verify_license d now ok name k)"
      by (simp add: r VerifyLicense)
    have "license_codes (snd (verify_license d now ok name k)) = license_codes d"
      by (simp add: verify_license_effect)
    then have "redeemed c (snd (verify_license d now ok name k)) = redeemed c d"
      by (rule redeemed_same)
    with h assms show ?thesis by simp
  next
    case (Signup name pw)
    have h: "handle hash verify d r = snd (signup hash d ok name pw)"
      by (simp add: r Signup)
    have "license_codes (snd (signup hash d ok name pw)) = license_codes d"
      by (simp add: signup_tables)
    then have "redeemed c (snd (signup hash d ok name pw)) = redeemed c d"
      by (rule redeemed_same)
    with h assms show ?thesis by simp
  qed
qed

lemma redeemed_run: "redeemed c d \<Longrightarrow> redeemed c (run hash verify d rs)"
  unfolding run_def by (induction rs arbitrary: d) (simp_all add: redeemed_handle)

section \<open>Single redemption of a license code\<close>

text \<open>
  C2. Once the row of a license code has \<^verbatim>\<open>is_used\<close> set, \<^verbatim>\<open>activate_code\<close> on that
  code never succeeds again and changes nothing: after any later sequence of requests, at
  any clock reading, for any account and whatever the store would answer to a commit, it
  returns the already-used failure and the tables it leaves are the tables it found. The
  code stays redeemed throughout.
\<close>

theorem redeemed_absorbing:
  assumes "first_index (\<lambda>r. code r = c) (license_codes d) = Some i"
    and "is_used (license_codes d ! i)"
  shows "activate_code (run hash verify d rs) now ok c uid =
           (Inr (False, ''License code already used'', None), run hash verify d rs)
         \<and> redeemed c (run hash verify d rs)"
proof -
  from assms have "redeemed c d" by (simp add: redeemed_def)
  then have r: "redeemed c (run hash verify d rs)" by (rule redeemed_run)
  then have "activate_code (run hash verify d rs) now ok c uid =
           (Inr (False, ''License code already used'', None), run hash verify d rs)"
    by (auto simp: redeemed_def activate_code_def validate_code_def split: option.splits)
  with r show ?thesis by simp
qed

theorem redeemed_absorbing_witness:
  "first_index (\<lambda>r. code r = ''SPENT'') (license_codes sample_db) = Some 1
   \<and> is_used (license_codes sample_db ! 1)
   \<and> activate_code (run plain_hash plain_verify sample_db sample_history)
        63871286400000000 True ''SPENT'' 1 =
       (Inr (False, ''License code already used'', None),
        run plain_hash plain_verify sample_db sample_history)
   \<and> redeemed ''SPENT'' (run plain_hash plain_verify sample_db sample_history)"
proof -
  have 1: "first_index (\<lambda>r. code r = ''SPENT'') (license_codes sample_db) = Some 1"
    by (simp add: sample_db_def sample_codes_def)
  have 2: "is_used (license_codes sample_db ! 1)"
    by (simp add: sample_db_def sample_codes_def)
  from redeemed_absorbing [OF 1 2] 1 2 show ?thesis by simp
qed

section \<open>Single redemption of a grant key\<close>

lemma key_used_same:
  "licenses d' = licenses d \<Longrightarrow> key_used k d' = key_used k d"
  by (auto simp: key_used_def split: option.splits)

lemma key_used_update:
  assumes "key_used k d" and "n < length (licenses d)"
    and "licenses d' = (licenses d)[n := (licenses d ! n)\<lparr>l_is_used := 1\<rparr>]"
  shows "key_used k d'"
proof -
  from assms(1) obtain i where i: "first_index (\<lambda>l. key l = k) (licenses d) = Some i"
    and u: "l_is_used (licenses d ! i) = 1"
    by (auto simp: key_used_def split: option.splits)
  have "first_index (\<lambda>l. key l = k) (licenses d') = Some i"
    using assms(2,3) i by (simp add: first_index_update)
  moreover have "l_is_used (licenses d' ! i) = 1"
    using assms(2,3) u first_index_Some_less [OF i] by (cases "i = n") simp_all
  ultimately show ?thesis by (simp add: key_used_def)
qed

lemma create_license_code_licenses:
  "licenses (snd (create_license_code d now ok gen days)) = licenses d"
  using create_license_code_effect [of d now ok gen days] by auto

lemma activate_code_licenses:
  "licenses (snd (activate_code d now ok c uid)) = licenses d"
  using activate_code_effect [of d now ok c uid] by auto

lemma key_used_handle:
  assumes "key_used k d"
  shows "key_used k (handle hash verify d r)"
proof -
  obtain now ok q where r: "r = (now, ok, q)" by (cases r)
  show ?thesis
  proof (cases q)
    case (Generate gen days)
    have "licenses (handle hash verify d r) = licenses d"
      by (simp add: r Generate generate_license_code_snd create_license_code_licenses)
    then have "key_used k (handle hash verify d r) = key_used k d" by (rule key_used_same)
    with assms show ?thesis by simp
  next
    case (Validate c)
    have "handle hash verify d r = d"
      by (simp add: r Validate validate_license_code_snd)
    with assms show ?thesis by simp
  next
    case (Activate c uid)
    have "licenses (handle hash verify d r) = licenses d"
      by (simp add: r Activate activate_license_code_snd activate_code_licenses)
    then have "key_used k (handle hash verify d r) = key_used k d" by (rule key_used_same)
    with assms show ?thesis by simp
  next
    case (Login name pw)
    have "licenses (handle hash verify d r) = licenses d"
      by (simp add: r Login login_tables)
    then have "key_used k (handle hash verify d r) = key_used k d" by (rule key_used_same)
    with assms show ?thesis by simp
  next
    case (VerifyLicense name k')
    have h: "handle hash verify d r = snd (verify_license d now ok name k')"
      by (simp add: r VerifyLicense)
    from verify_license_effect [of d now ok name k']
    have "key_used k (snd (verify_license d now ok name k'))"
    proof (elim conjE disjE exE)
      assume "licenses (snd (verify_license d now ok name k')) = licenses d"
      then have "key_used k (snd (verify_license d now ok name k')) = key_used k d"
        by (rule key_used_same)
      with assms show ?thesis by simp
    next
      fix n
      assume "n < length (licenses d)"
        and "licenses (snd (verify_license d now ok name k')) =
               (licenses d)[n := (licenses d ! n)\<lparr>l_is_used := 1\<rparr>]"
      then show ?thesis by (rule key_used_update [OF assms])
    qed
    with h show ?thesis by simp
  next
    case (Signup name pw)
    have "licenses (handle hash verify d r) = licenses d"
      by (simp add: r Signup signup_tables)
    then have "key_used k (handle hash verify d r) = key_used k d" by (rule key_used_same)
    with assms show ?thesis by simp
  qed
qed

lemma key_used_run: "key_used k d \<Longrightarrow> key_used k (run hash verify d rs)"
  unfolding run_def by (induction rs arbitrary: d) (simp_all add: key_used_handle)

text \<open>
  C6. Once the row of a grant key has \<^verbatim>\<open>is_used == 1\<close>, every later
  \<^verbatim>\<open>verify_license\<close> with that key, for any username, at any clock reading and after
  any sequence of requests, raises the 400 "already used" error and leaves every table as
  it was: neither the grant nor any account changes, so the key activates no account
  again. The key stays used throughout.
\<close>

theorem used_key_absorbing:
  assumes "first_index (\<lambda>l. key l = k) (licenses d) = Some i"
    and "l_is_used (licenses d ! i) = 1"
  shows "verify_license (run hash verify d rs) now ok name k =
           (Inl (HTTPException 400 (Detail ''License key has already been used'')),
            run hash verify d rs)
         \<and> key_used k (run hash verify d rs)"
proof -
  from assms have "key_used k d" by (simp add: key_used_def)
  then have r: "key_used k (run hash verify d rs)" by (rule key_used_run)
  then have "verify_license (run hash verify d rs) now ok name k =
           (Inl (HTTPException 400 (Detail ''License key has already been used'')),
            run hash verify d rs)"
    by (auto simp: key_used_def verify_license_def split: option.splits)
  with r show ?thesis by simp
qed

theorem used_key_absorbing_witness:
  "first_index (\<lambda>l. key l = ''K-USED'') (licenses sample_db) = Some 1
   \<and> l_is_used (licenses sample_db ! 1) = 1
   \<and> verify_license (run plain_hash plain_verify sample_db sample_history)
        63871286400000000 True ''alice'' ''K-USED'' =
       (Inl (HTTPException 400 (Detail ''License key has already been used'')),
        run plain_hash plain_verify sample_db sample_history)
   \<and> key_used ''K-USED'' (run plain_hash plain_verify sample_db sample_history)"
proof -
  have 1: "first_index (\<lambda>l. key l = ''K-USED'') (licenses sample_db) = Some 1"
    by (simp add: sample_db_def sample_licenses_def)
  have 2: "l_is_used (licenses sample_db ! 1) = 1"
    by (simp add: sample_db_def sample_licenses_def)
  from used_key_absorbing [OF 1 2] 1 2 show ?thesis by simp
qed

section \<open>Validation reads only\<close>

text \<open>
  C3. \<^verbatim>\<open>validate_code\<close> leaves the stored tables as they were; after any number
  \<open>n\<close> of validations of a code at the same clock reading the tables are still the
  original ones, the next validation returns what the first returned, and the
  \<^verbatim>\<open>is_used\<close> column is unchanged. The same holds through the route
  \<^verbatim>\<open>validate_license_code\<close>.
\<close>

theorem validate_code_pure:
  "snd (validate_code d now c) = d
   \<and> ((\<lambda>s. snd (validate_code s now c)) ^^ n) d = d
   \<and> fst (validate_code (((\<lambda>s. snd (validate_code s now c)) ^^ n) d) now c) =
       fst (validate_code d now c)
   \<and> map is_used (license_codes (((\<lambda>s. snd (validate_code s now c)) ^^ n) d)) =
       map is_used (license_codes d)
   \<and> snd (validate_license_code d now c) = d"
proof -
  have 1: "snd (validate_code d now c) = d" by (rule validate_code_snd)
  have 2: "((\<lambda>s. snd (validate_code s now c)) ^^ n) d = d"
    by (induction n) (simp_all add: validate_code_snd)
  show ?thesis by (simp add: 1 2 validate_license_code_snd)
qed

section \<open>Outcomes of validation\<close>

lemma dt_less_naive_now:
  "dt_less e (replace_tzinfo (datetime_now now) None) =
     (if tzinfo e = None then Inr (dt_us e < now) else Inl TypeError)"
  by (simp add: dt_less_def replace_tzinfo_def datetime_now_def)

lemma validate_code_missing:
  "first_index (\<lambda>r. code r = c) (license_codes d) = None \<Longrightarrow>
   validate_code d now c = (Inr (False, ''Invalid license code'', None), d)"
  by (simp add: validate_code_def)

lemma validate_code_used:
  "first_index (\<lambda>r. code r = c) (license_codes d) = Some i \<Longrightarrow>
   is_used (license_codes d ! i) \<Longrightarrow>
   validate_code d now c = (Inr (False, ''License code already used'', None), d)"
  by (simp add: validate_code_def)

lemma validate_code_unused:
  "first_index (\<lambda>r. code r = c) (license_codes d) = Some i \<Longrightarrow>
   \<not> is_used (license_codes d ! i) \<Longrightarrow>
   expires_at (license_codes d ! i) = Some e \<Longrightarrow> tzinfo e = None \<Longrightarrow>
   validate_code d now c =
     (if dt_us e < now then (Inr (False, ''License code has expired'', None), d)
      else (Inr (True, ''License code is valid'', Some (isoformat e)), d))"
  by (simp add: validate_code_def dt_less_naive_now)

lemma validate_code_raises:
  "first_index (\<lambda>r. code r = c) (license_codes d) = Some i \<Longrightarrow>
   \<not> is_used (license_codes d ! i) \<Longrightarrow>
   \<not> stored_naive (expires_at (license_codes d ! i)) \<Longrightarrow>
   validate_code d now c = (Inl (Failed ''Failed to validate license code'' TypeError), d)"
  by (auto simp: validate_code_def dt_less_naive_now stored_naive_def split: option.splits)

lemma validate_code_True:
  assumes "fst (validate_code d now c) = Inr (True, m, x)"
  shows "\<exists>i e. first_index (\<lambda>r. code r = c) (license_codes d) = Some i \<and>
           \<not> is_used (license_codes d ! i) \<and>
           expires_at (license_codes d ! i) = Some e \<and> tzinfo e = None \<and>
           \<not> dt_us e < now \<and> m = ''License code is valid'' \<and> x = Some (isoformat e)"
proof (cases "first_index (\<lambda>r. code r = c) (license_codes d)")
  case None
  with assms show ?thesis by (simp add: validate_code_missing)
next
  case (Some i)
  show ?thesis
  proof (cases "is_used (license_codes d ! i)")
    case True
    with assms Some show ?thesis by (simp add: validate_code_used)
  next
    case False
    show ?thesis
    proof (cases "stored_naive (expires_at (license_codes d ! i))")
      case True
      then obtain e where e: "expires_at (license_codes d ! i) = Some e" "tzinfo e = None"
        by (auto simp: stored_naive_def split: option.splits)
      with assms Some False show ?thesis
        by (auto simp: validate_code_unused split: if_splits)
    next
      case nn: False
      with assms Some False show ?thesis by (simp add: validate_code_raises)
    qed
  qed
qed

lemma validate_code_False:
  assumes "fst (validate_code d now c) = Inr (False, m, x)"
  shows "x = None \<and>
         (m = ''Invalid license code'' \<or> m = ''License code already used'' \<or>
          m = ''License code has expired'')"
proof (cases "first_index (\<lambda>r. code r = c) (license_codes d)")
  case None
  with assms show ?thesis by (simp add: validate_code_missing)
next
  case (Some i)
  show ?thesis
  proof (cases "is_used (license_codes d ! i)")
    case True
    with assms Some show ?thesis by (simp add: validate_code_used)
  next
    case False
    show ?thesis
    proof (cases "stored_naive (expires_at (license_codes d ! i))")
      case True
      then obtain e where e: "expires_at (license_codes d ! i) = Some e" "tzinfo e = None"
        by (auto simp: stored_naive_def split: option.splits)
      with assms Some False show ?thesis
        by (auto simp: validate_code_unused split: if_splits)
    next
      case nn: False
      with assms Some False show ?thesis by (simp add: validate_code_raises)
    qed
  qed
qed

lemma codes_naive_nth:
  "codes_naive d \<Longrightarrow> i < length (license_codes d) \<Longrightarrow>
   stored_naive (expires_at (license_codes d ! i))"
  by (simp add: codes_naive_def list_all_length)

lemma validate_code_total:
  assumes "codes_naive d"
  shows "fst (validate_code d now c) \<in>
           {Inr (False, ''Invalid license code'', None),
            Inr (False, ''License code already used'', None),
            Inr (False, ''License code has expired'', None)} \<union>
           range (\<lambda>e. Inr (True, ''License code is valid'', Some (isoformat e)))"
proof (cases "first_index (\<lambda>r. code r = c) (license_codes d)")
  case None
  then show ?thesis by (simp add: validate_code_missing)
next
  case (Some i)
  show ?thesis
  proof (cases "is_used (license_codes d ! i)")
    case True
    with Some show ?thesis by (simp add: validate_code_used)
  next
    case False
    from codes_naive_nth [OF assms first_index_Some_less [OF Some]]
    obtain e where e: "expires_at (license_codes d ! i) = Some e" "tzinfo e = None"
      by (auto simp: stored_naive_def split: option.splits)
    with Some False show ?thesis by (simp add: validate_code_unused)
  qed
qed

lemma codes_naive_same:
  "license_codes d' = license_codes d \<Longrightarrow> codes_naive d' = codes_naive d"
  by (simp add: codes_naive_def)

lemma add_days_tzinfo: "add_days t n = Inr t' \<Longrightarrow> tzinfo t' = tzinfo t"
  by (auto simp: add_days_def split: if_splits)

lemma create_license_code_naive:
  assumes "codes_naive d"
  shows "codes_naive (snd (create_license_code d now ok gen days))"
proof (cases "add_days (replace_tzinfo (datetime_now now) None) days")
  case (Inl e)
  with assms show ?thesis by (simp add: create_license_code_def)
next
  case (Inr t)
  from add_days_tzinfo [OF Inr] have "tzinfo t = None"
    by (simp add: replace_tzinfo_def)
  with assms Inr show ?thesis
    by (cases ok)
       (simp_all add: create_license_code_def commit_def Let_def codes_naive_def
          stored_naive_def)
qed

lemma activate_code_naive:
  assumes "codes_naive d"
  shows "codes_naive (snd (activate_code d now ok c uid))"
  using activate_code_effect [of d now ok c uid]
proof (elim disjE exE conjE)
  assume "snd (activate_code d now ok c uid) = d"
  with assms show ?thesis by simp
next
  fix i j u
  assume i: "i < length (license_codes d)"
    and e: "snd (activate_code d now ok c uid) =
            d\<lparr>license_codes :=
                 (license_codes d)[i := (license_codes d ! i)\<lparr>is_used := True, used_by := Some uid\<rparr>],
               users := (users d)[j := u]\<rparr>"
  have "list_all (\<lambda>r. stored_naive (expires_at r))
          ((license_codes d)[i := (license_codes d ! i)\<lparr>is_used := True, used_by := Some uid\<rparr>])"
    using assms i by (auto simp: codes_naive_def list_all_length nth_list_update)
  with e show ?thesis by (simp add: codes_naive_def)
qed

lemma codes_naive_handle:
  assumes "codes_naive d"
  shows "codes_naive (handle hash verify d r)"
proof -
  obtain now ok q where r: "r = (now, ok, q)" by (cases r)
  show ?thesis
  proof (cases q)
    case (Generate gen days)
    with assms r show ?thesis
      by (simp add: generate_license_code_snd create_license_code_naive)
  next
    case (Validate c)
    with assms r show ?thesis by (simp add: validate_license_code_snd)
  next
    case (Activate c uid)
    with assms r show ?thesis
      by (simp add: activate_license_code_snd activate_code_naive)
  next
    case (Login name pw)
    have "license_codes (handle hash verify d r) = license_codes d"
      by (simp add: r Login login_tables)
    then have "codes_naive (handle hash verify d r) = codes_naive d"
      by (rule codes_naive_same)
    with assms show ?thesis by simp
  next
    case (VerifyLicense name k)
    have "license_codes (handle hash verify d r) = license_codes d"
      by (simp add: r VerifyLicense verify_license_effect)
    then have "codes_naive (handle hash verify d r) = codes_naive d"
      by (rule codes_naive_same)
    with assms show ?thesis by simp
  next
    case (Signup name pw)
    have "license_codes (handle hash verify d r) = license_codes d"
      by (simp add: r Signup signup_tables)
    then have "codes_naive (handle hash verify d r) = codes_naive d"
      by (rule codes_naive_same)
    with assms show ?thesis by simp
  qed
qed

lemma codes_naive_run: "codes_naive d \<Longrightarrow> codes_naive (run hash verify d rs)"
  unfolding run_def by (induction rs arbitrary: d) (simp_all add: codes_naive_handle)

lemma codes_naive_empty: "codes_naive empty_db"
  by (simp add: codes_naive_def empty_db_def)

text \<open>
  C4. \<^verbatim>\<open>validate_code\<close> decides in this order: no stored row for the code gives
  "Invalid license code"; a row with \<^verbatim>\<open>is_used\<close> set gives "License code already used";
  an unused row whose (naive) \<^verbatim>\<open>expires_at\<close> is earlier than the current time gives
  "License code has expired"; any other unused row gives "License code is valid" together
  with the rendering of the stored \<^verbatim>\<open>expires_at\<close>. Only the valid outcome carries an
  expiration. On tables whose codes all carry a naive \<^verbatim>\<open>expires_at\<close>, and on whatever any
  sequence of requests makes of such tables (the empty tables among them), the result is
  always one of these four.
\<close>

theorem validate_code_outcomes:
  "(first_index (\<lambda>r. code r = c) (license_codes d) = None \<longrightarrow>
      fst (validate_code d now c) = Inr (False, ''Invalid license code'', None))
   \<and> (first_index (\<lambda>r. code r = c) (license_codes d) = Some i \<and>
       is_used (license_codes d ! i) \<longrightarrow>
      fst (validate_code d now c) = Inr (False, ''License code already used'', None))
   \<and> (first_index (\<lambda>r. code r = c) (license_codes d) = Some i \<and>
       \<not> is_used (license_codes d ! i) \<and>
       expires_at (license_codes d ! i) = Some e \<and> tzinfo e = None \<and> dt_us e < now \<longrightarrow>
      fst (validate_code d now c) = Inr (False, ''License code has expired'', None))
   \<and> (first_index (\<lambda>r. code r = c) (license_codes d) = Some i \<and>
       \<not> is_used (license_codes d ! i) \<and>
       expires_at (license_codes d ! i) = Some e \<and> tzinfo e = None \<and> \<not> dt_us e < now \<longrightarrow>
      fst (validate_code d now c) = Inr (True, ''License code is valid'', Some (isoformat e)))
   \<and> (fst (validate_code d now c) = Inr (b, m, Some x) \<longrightarrow>
      b \<and> m = ''License code is valid'')
   \<and> (codes_naive d \<longrightarrow>
      fst (validate_code (run hash verify d rs) now c) \<in>
        {Inr (False, ''Invalid license code'', None),
         Inr (False, ''License code already used'', None),
         Inr (False, ''License code has expired'', None)} \<union>
        range (\<lambda>t. Inr (True, ''License code is valid'', Some (isoformat t))))"
proof (intro conjI impI)
  assume "first_index (\<lambda>r. code r = c) (license_codes d) = None"
  then show "fst (validate_code d now c) = Inr (False, ''Invalid license code'', None)"
    by (simp add: validate_code_missing)
next
  assume "first_index (\<lambda>r. code r = c) (license_codes d) = Some i \<and>
          is_used (license_codes d ! i)"
  then show "fst (validate_code d now c) = Inr (False, ''License code already used'', None)"
    by (simp add: validate_code_used)
next
  assume "first_index (\<lambda>r. code r = c) (license_codes d) = Some i \<and>
       \<not> is_used (license_codes d ! i) \<and>
       expires_at (license_codes d ! i) = Some e \<and> tzinfo e = None \<and> dt_us e < now"
  then show "fst (validate_code d now c) = Inr (False, ''License code has expired'', None)"
    by (simp add: validate_code_unused)
next
  assume "first_index (\<lambda>r. code r = c) (license_codes d) = Some i \<and>
       \<not> is_used (license_codes d ! i) \<and>
       expires_at (license_codes d ! i) = Some e \<and> tzinfo e = None \<and> \<not> dt_us e < now"
  then show "fst (validate_code d now c) =
               Inr (True, ''License code is valid'', Some (isoformat e))"
    by (simp add: validate_code_unused)
next
  assume a: "fst (validate_code d now c) = Inr (b, m, Some x)"
  show "b"
  proof (rule ccontr)
    assume "\<not> b"
    with a validate_code_False [of d now c m "Some x"] show False by simp
  qed
  then show "m = ''License code is valid''"
    using a validate_code_True [of d now c m "Some x"] by auto
next
  assume "codes_naive d"
  then have "codes_naive (run hash verify d rs)" by (rule codes_naive_run)
  then show "fst (validate_code (run hash verify d rs) now c) \<in>
        {Inr (False, ''Invalid license code'', None),
         Inr (False, ''License code already used'', None),
         Inr (False, ''License code has expired'', None)} \<union>
        range (\<lambda>t. Inr (True, ''License code is valid'', Some (isoformat t)))"
    by (rule validate_code_total)
qed

theorem validate_code_outcomes_witness:
  "fst (validate_code sample_db 63871286400000000 ''NOPE'') =
     Inr (False, ''Invalid license code'', None)
   \<and> fst (validate_code sample_db 63871286400000000 ''SPENT'') =
     Inr (False, ''License code already used'', None)
   \<and> fst (validate_code sample_db 63871286400000000 ''STALE'') =
     Inr (False, ''License code has expired'', None)
   \<and> fst (validate_code sample_db 63871286400000000 ''FRESH'') =
     Inr (True, ''License code is valid'',
          Some (isoformat \<lparr>dt_us = 63873878400000000, tzinfo = None\<rparr>))
   \<and> codes_naive sample_db
   \<and> fst (validate_code (run plain_hash plain_verify sample_db sample_history)
             63871286400000000 ''FRESH'') \<in>
        {Inr (False, ''Invalid license code'', None),
         Inr (False, ''License code already used'', None),
         Inr (False, ''License code has expired'', None)} \<union>
        range (\<lambda>t. Inr (True, ''License code is valid'', Some (isoformat t)))"
proof -
  have n: "first_index (\<lambda>r. code r = ''NOPE'') (license_codes sample_db) = None"
    by (simp add: sample_db_def sample_codes_def)
  have s: "first_index (\<lambda>r. code r = ''SPENT'') (license_codes sample_db) = Some 1
           \<and> is_used (license_codes sample_db ! 1)"
    by (simp add: sample_db_def sample_codes_def)
  have t: "first_index (\<lambda>r. code r = ''STALE'') (license_codes sample_db) = Some 2
           \<and> \<not> is_used (license_codes sample_db ! 2)
           \<and> expires_at (license_codes sample_db ! 2) =
               Some \<lparr>dt_us = 63871200000000000, tzinfo = None\<rparr>
           \<and> tzinfo \<lparr>dt_us = 63871200000000000, tzinfo = None\<rparr> = None
           \<and> dt_us \<lparr>dt_us = 63871200000000000, tzinfo = None\<rparr> < 63871286400000000"
    by (simp add: sample_db_def sample_codes_def)
  have f: "first_index (\<lambda>r. code r = ''FRESH'') (license_codes sample_db) = Some 0
           \<and> \<not> is_used (license_codes sample_db ! 0)
           \<and> expires_at (license_codes sample_db ! 0) =
               Some \<lparr>dt_us = 63873878400000000, tzinfo = None\<rparr>
           \<and> tzinfo \<lparr>dt_us = 63873878400000000, tzinfo = None\<rparr> = None
           \<and> \<not> dt_us \<lparr>dt_us = 63873878400000000, tzinfo = None\<rparr> < 63871286400000000"
    by (simp add: sample_db_def sample_codes_def)
  have c: "codes_naive sample_db"
    by (simp add: codes_naive_def stored_naive_def sample_db_def sample_codes_def)
  note w = validate_code_outcomes [where now = 63871286400000000 and d = sample_db]
  from w [where c = "''NOPE''"] n
  have 1: "fst (validate_code sample_db 63871286400000000 ''NOPE'') =
     Inr (False, ''Invalid license code'', None)" by blast
  from w [where c = "''SPENT''" and i = 1] s
  have 2: "fst (validate_code sample_db 63871286400000000 ''SPENT'') =
     Inr (False, ''License code already used'', None)" by blast
  from w [where c = "''STALE''" and i = 2
            and e = "\<lparr>dt_us = 63871200000000000, tzinfo = None\<rparr>"] t
  have 3: "fst (validate_code sample_db 63871286400000000 ''STALE'') =
     Inr (False, ''License code has expired'', None)" by blast
  from w [where c = "''FRESH''" and i = 0
            and e = "\<lparr>dt_us = 63873878400000000, tzinfo = None\<rparr>"] f
  have 4: "fst (validate_code sample_db 63871286400000000 ''FRESH'') =
     Inr (True, ''License code is valid'',
          Some (isoformat \<lparr>dt_us = 63873878400000000, tzinfo = None\<rparr>))" by blast
  from w [where c = "''FRESH''" and hash = plain_hash and verify = plain_verify
            and rs = sample_history] c
  have 5: "fst (validate_code (run plain_hash plain_verify sample_db sample_history)
             63871286400000000 ''FRESH'') \<in>
        {Inr (False, ''Invalid license code'', None),
         Inr (False, ''License code already used'', None),
         Inr (False, ''License code has expired'', None)} \<union>
        range (\<lambda>t. Inr (True, ''License code is valid'', Some (isoformat t)))" by blast
  from 1 2 3 4 5 c show ?thesis by blast
qed

section \<open>Activation\<close>

lemma activate_code_invalid:
  "validate_code d now c = (Inr (False, m, x), d) \<Longrightarrow>
   activate_code d now ok c uid = (Inr (False, m, None), d)"
  by (simp add: activate_code_def)

lemma activate_code_raised:
  "validate_code d now c = (Inl e, d) \<Longrightarrow>
   activate_code d now ok c uid = (Inl (Failed ''Failed to activate license code'' e), d)"
  by (simp add: activate_code_def)

lemma activate_code_no_user:
  "validate_code d now c = (Inr (True, m, x), d) \<Longrightarrow>
   first_index (\<lambda>u. u_id u = uid) (users d) = None \<Longrightarrow>
   activate_code d now ok c uid =
     (Inr (False, ''Internal error: License code or user not found after validation.'',
           None), d)"
  by (simp add: activate_code_def split: option.splits)

lemma activate_code_commit:
  "validate_code d now c = (Inr (True, m, x), d) \<Longrightarrow>
   first_index (\<lambda>r. code r = c) (license_codes d) = Some i \<Longrightarrow>
   first_index (\<lambda>u. u_id u = uid) (users d) = Some j \<Longrightarrow>
   activate_code d now ok c uid =
     (if ok
      then (Inr (True, ''License activated successfully'',
                 map_option isoformat (expires_at (license_codes d ! i))),
            d\<lparr>license_codes :=
                 (license_codes d)[i := (license_codes d ! i)\<lparr>is_used := True,
                                                               used_by := Some uid\<rparr>],
               users :=
                 (users d)[j := (users d ! j)\<lparr>is_active := True,
                     expiration_date := expires_at (license_codes d ! i)\<rparr>]\<rparr>)
      else (Inl (Failed ''Failed to activate license code'' DBAPIError), d))"
  by (simp add: activate_code_def commit_def Let_def)

lemma validate_code_pair: "validate_code d now c = (fst (validate_code d now c), d)"
  using validate_code_snd [of d now c] by (metis prod.collapse)

lemma activate_code_unchanged_unless_success:
  assumes "\<forall>m x. fst (activate_code d now ok c uid) \<noteq> Inr (True, m, x)"
  shows "snd (activate_code d now ok c uid) = d"
proof (cases "fst (validate_code d now c)")
  case (Inl e)
  with validate_code_pair [of d now c] have "validate_code d now c = (Inl e, d)" by simp
  then show ?thesis by (simp add: activate_code_raised)
next
  case (Inr t)
  obtain b m x where t: "t = (b, m, x)" by (cases t)
  with Inr validate_code_pair [of d now c]
  have v: "validate_code d now c = (Inr (b, m, x), d)" by simp
  show ?thesis
  proof (cases b)
    case False
    with v show ?thesis by (simp add: activate_code_invalid)
  next
    case True
    from validate_code_True [of d now c m x] v True
    obtain i where i: "first_index (\<lambda>r. code r = c) (license_codes d) = Some i" by auto
    show ?thesis
    proof (cases "first_index (\<lambda>u. u_id u = uid) (users d)")
      case None
      with v True show ?thesis by (simp add: activate_code_no_user)
    next
      case (Some j)
      from activate_code_commit [of d now c m x i uid j ok] v True i Some assms
      show ?thesis by (cases ok) auto
    qed
  qed
qed

text \<open>
  C1. For a stored code that is unused and whose (naive) \<^verbatim>\<open>expires_at\<close> is not
  earlier than the current time, and an existing account, \<^verbatim>\<open>activate_code\<close> with an
  accepted commit returns success with the rendering of the code's \<^verbatim>\<open>expires_at\<close>, and
  the tables it leaves differ from those it found in exactly four fields: the code's
  \<^verbatim>\<open>is_used\<close> is set, its \<^verbatim>\<open>used_by\<close> is the account id, the account's
  \<^verbatim>\<open>is_active\<close> is set and its \<^verbatim>\<open>expiration_date\<close> is the code's \<^verbatim>\<open>expires_at\<close>. With
  a refused commit the call raises and the tables are those it found. In general, whenever
  the call does not return success, the tables are those it found.
\<close>

theorem activate_code_atomic:
  "(first_index (\<lambda>r. code r = c) (license_codes d) = Some i \<and>
    \<not> is_used (license_codes d ! i) \<and>
    expires_at (license_codes d ! i) = Some e \<and> tzinfo e = None \<and> \<not> dt_us e < now \<and>
    first_index (\<lambda>u. u_id u = uid) (users d) = Some j \<longrightarrow>
      activate_code d now True c uid =
        (Inr (True, ''License activated successfully'', Some (isoformat e)),
         d\<lparr>license_codes :=
              (license_codes d)[i := (license_codes d ! i)\<lparr>is_used := True,
                                                            used_by := Some uid\<rparr>],
            users :=
              (users d)[j := (users d ! j)\<lparr>is_active := True,
                                               expiration_date := Some e\<rparr>]\<rparr>)
      \<and> activate_code d now False c uid =
        (Inl (Failed ''Failed to activate license code'' DBAPIError), d))
   \<and> ((\<forall>m x. fst (activate_code d now ok c uid) \<noteq> Inr (True, m, x)) \<longrightarrow>
        snd (activate_code d now ok c uid) = d)"
proof (intro conjI impI)
  assume a: "first_index (\<lambda>r. code r = c) (license_codes d) = Some i \<and>
    \<not> is_used (license_codes d ! i) \<and>
    expires_at (license_codes d ! i) = Some e \<and> tzinfo e = None \<and> \<not> dt_us e < now \<and>
    first_index (\<lambda>u. u_id u = uid) (users d) = Some j"
  then have v: "validate_code d now c =
                  (Inr (True, ''License code is valid'', Some (isoformat e)), d)"
    by (simp add: validate_code_unused)
  from a have i: "first_index (\<lambda>r. code r = c) (license_codes d) = Some i"
    and j: "first_index (\<lambda>u. u_id u = uid) (users d) = Some j"
    and e: "expires_at (license_codes d ! i) = Some e" by simp_all
  show "activate_code d now True c uid =
        (Inr (True, ''License activated successfully'', Some (isoformat e)),
         d\<lparr>license_codes :=
              (license_codes d)[i := (license_codes d ! i)\<lparr>is_used := True,
                                                            used_by := Some uid\<rparr>],
            users :=
              (users d)[j := (users d ! j)\<lparr>is_active := True,
                                               expiration_date := Some e\<rparr>]\<rparr>)"
    using activate_code_commit [OF v i j, of True] e by simp
  show "activate_code d now False c uid =
        (Inl (Failed ''Failed to activate license code'' DBAPIError), d)"
    using activate_code_commit [OF v i j, of False] by simp
next
  assume "\<forall>m x. fst (activate_code d now ok c uid) \<noteq> Inr (True, m, x)"
  then show "snd (activate_code d now ok c uid) = d"
    by (rule activate_code_unchanged_unless_success)
qed

theorem activate_code_atomic_witness:
  "activate_code sample_db 63871286400000000 True ''FRESH'' 1 =
     (Inr (True, ''License activated successfully'',
           Some (isoformat \<lparr>dt_us = 63873878400000000, tzinfo = None\<rparr>)),
      sample_db\<lparr>license_codes :=
          (license_codes sample_db)[0 := (license_codes sample_db ! 0)\<lparr>is_used := True,
                                                                        used_by := Some 1\<rparr>],
        users :=
          (users sample_db)[0 := (users sample_db ! 0)\<lparr>is_active := True,
              expiration_date := Some \<lparr>dt_us = 63873878400000000, tzinfo = None\<rparr>\<rparr>]\<rparr>)
   \<and> activate_code sample_db 63871286400000000 False ''FRESH'' 1 =
     (Inl (Failed ''Failed to activate license code'' DBAPIError), sample_db)
   \<and> (\<forall>m x. fst (activate_code sample_db 63871286400000000 True ''STALE'' 1) \<noteq>
              Inr (True, m, x))
   \<and> snd (activate_code sample_db 63871286400000000 True ''STALE'' 1) = sample_db"
proof -
  have f: "first_index (\<lambda>r. code r = ''FRESH'') (license_codes sample_db) = Some 0
           \<and> \<not> is_used (license_codes sample_db ! 0)
           \<and> expires_at (license_codes sample_db ! 0) =
               Some \<lparr>dt_us = 63873878400000000, tzinfo = None\<rparr>
           \<and> tzinfo \<lparr>dt_us = 63873878400000000, tzinfo = None\<rparr> = None
           \<and> \<not> dt_us \<lparr>dt_us = 63873878400000000, tzinfo = None\<rparr> < 63871286400000000
           \<and> first_index (\<lambda>u. u_id u = 1) (users sample_db) = Some 0"
    by (simp add: sample_db_def sample_codes_def sample_users_def)
  have t: "first_index (\<lambda>r. code r = ''STALE'') (license_codes sample_db) = Some 2"
    "\<not> is_used (license_codes sample_db ! 2)"
    "expires_at (license_codes sample_db ! 2) =
       Some \<lparr>dt_us = 63871200000000000, tzinfo = None\<rparr>"
    by (simp_all add: sample_db_def sample_codes_def)
  have "validate_code sample_db 63871286400000000 ''STALE'' =
          (Inr (False, ''License code has expired'', None), sample_db)"
    using validate_code_unused [OF t, of 63871286400000000] by simp
  then have "activate_code sample_db 63871286400000000 True ''STALE'' 1 =
          (Inr (False, ''License code has expired'', None), sample_db)"
    by (rule activate_code_invalid)
  then have h: "\<forall>m x. fst (activate_code sample_db 63871286400000000 True ''STALE'' 1) \<noteq>
              Inr (True, m, x)" by simp
  note w = activate_code_atomic [where d = sample_db and now = 63871286400000000 and uid = 1]
  from w [where c = "''FRESH''" and i = 0 and j = 0
            and e = "\<lparr>dt_us = 63873878400000000, tzinfo = None\<rparr>"] f
  have 1: "activate_code sample_db 63871286400000000 True ''FRESH'' 1 =
     (Inr (True, ''License activated successfully'',
           Some (isoformat \<lparr>dt_us = 63873878400000000, tzinfo = None\<rparr>)),
      sample_db\<lparr>license_codes :=
          (license_codes sample_db)[0 := (license_codes sample_db ! 0)\<lparr>is_used := True,
                                                                        used_by := Some 1\<rparr>],
        users :=
          (users sample_db)[0 := (users sample_db ! 0)\<lparr>is_active := True,
              expiration_date := Some \<lparr>dt_us = 63873878400000000, tzinfo = None\<rparr>\<rparr>]\<rparr>)
   \<and> activate_code sample_db 63871286400000000 False ''FRESH'' 1 =
     (Inl (Failed ''Failed to activate license code'' DBAPIError), sample_db)"
    by blast
  from w [where c = "''STALE''" and ok = True] h
  have 2: "snd (activate_code sample_db 63871286400000000 True ''STALE'' 1) = sample_db"
    by blast
  from 1 2 h show ?thesis by blast
qed

lemma activate_license_code_of:
  "activate_code d now ok c uid = (Inr (False, m, x), d') \<Longrightarrow>
   activate_license_code d now ok c uid = (Inl (HTTPException 400 (Detail m)), d')"
  by (simp add: activate_license_code_def)

lemma activate_code_result:
  "(\<exists>e. activate_code d now ok c uid = (Inl e, d))
   \<or> (\<exists>m. fst (validate_code d now c) = Inr (False, m, None) \<and>
           activate_code d now ok c uid = (Inr (False, m, None), d))
   \<or> ((\<exists>x. fst (validate_code d now c) = Inr (True, ''License code is valid'', x)) \<and>
       first_index (\<lambda>u. u_id u = uid) (users d) = None \<and>
       activate_code d now ok c uid = (Inr (False, ''Internal error: License code or user not found after validation.'', None), d))
   \<or> (\<exists>x d'. activate_code d now ok c uid =
                (Inr (True, ''License activated successfully'', x), d'))"
proof (cases "fst (validate_code d now c)")
  case (Inl err)
  with validate_code_pair [of d now c] have "validate_code d now c = (Inl err, d)" by simp
  then show ?thesis by (simp add: activate_code_raised)
next
  case (Inr t)
  obtain b m x where t: "t = (b, m, x)" by (cases t)
  with Inr validate_code_pair [of d now c]
  have v: "validate_code d now c = (Inr (b, m, x), d)" by simp
  show ?thesis
  proof (cases b)
    case False
    with v have f: "fst (validate_code d now c) = Inr (False, m, x)" by simp
    from validate_code_False [OF f] have "x = None" by simp
    with v False f show ?thesis by (simp add: activate_code_invalid)
  next
    case True
    from validate_code_True [of d now c m x] v True
    obtain k where k: "first_index (\<lambda>r. code r = c) (license_codes d) = Some k"
      and m: "m = ''License code is valid''" by auto
    show ?thesis
    proof (cases "first_index (\<lambda>u. u_id u = uid) (users d)")
      case None
      with v True m show ?thesis by (simp add: activate_code_no_user)
    next
      case (Some j)
      from activate_code_commit [of d now c m x k uid j ok] v True k Some
      show ?thesis by (cases ok) simp_all
    qed
  qed
qed

text \<open>
  C8. When the code passes validation and \<^verbatim>\<open>db.get(User, user_id)\<close> finds no account,
  \<^verbatim>\<open>activate_code\<close> returns failure with the message "Internal error: License code or
  user not found after validation." and changes nothing; the route turns it into a 400
  with that detail. Whenever \<^verbatim>\<open>activate_code\<close> returns this message the account does
  not exist. When the code fails validation the message returned is that of the
  validation, one of the three invalid-code messages, and differs from it. The same
  separation holds at the route \<^verbatim>\<open>activate_license_code\<close>: it answers the 400 with the
  account-not-found detail only when the code passes validation and the account is
  missing, it answers a code that fails validation with a 400 whose detail is the
  validation's message, a different detail, and it answers a successful activation with
  the success body. In every case the route's answer is read off the service's result:
  an exception passes through, a failure becomes a 400 carrying the service's message,
  a success becomes the body.
\<close>

theorem activate_code_account_not_found:
  "(first_index (\<lambda>r. code r = c) (license_codes d) = Some i \<and>
    \<not> is_used (license_codes d ! i) \<and>
    expires_at (license_codes d ! i) = Some e \<and> tzinfo e = None \<and> \<not> dt_us e < now \<and>
    first_index (\<lambda>u. u_id u = uid) (users d) = None \<longrightarrow>
      activate_code d now ok c uid = (Inr (False, ''Internal error: License code or user not found after validation.'', None), d)
      \<and> activate_license_code d now ok c uid = (Inl (HTTPException 400 (Detail ''Internal error: License code or user not found after validation.'')), d))
   \<and> (fst (activate_code d now ok c uid) = Inr (b, ''Internal error: License code or user not found after validation.'', x) \<longrightarrow>
        \<not> b \<and> first_index (\<lambda>u. u_id u = uid) (users d) = None)
   \<and> (fst (validate_code d now c) = Inr (False, m, x) \<longrightarrow>
        fst (activate_code d now ok c uid) = Inr (False, m, None)
        \<and> (m = ''Invalid license code'' \<or> m = ''License code already used'' \<or>
           m = ''License code has expired'')
        \<and> m \<noteq> ''Internal error: License code or user not found after validation.'')
   \<and> (fst (activate_license_code d now ok c uid) = Inl (HTTPException 400 (Detail ''Internal error: License code or user not found after validation.'')) \<longrightarrow>
        first_index (\<lambda>u. u_id u = uid) (users d) = None
        \<and> (\<exists>y. fst (validate_code d now c) = Inr (True, ''License code is valid'', y)))
   \<and> (fst (validate_code d now c) = Inr (False, m, x) \<longrightarrow>
        activate_license_code d now ok c uid = (Inl (HTTPException 400 (Detail m)), d)
        \<and> HTTPException 400 (Detail m) \<noteq> HTTPException 400 (Detail ''Internal error: License code or user not found after validation.''))
   \<and> (first_index (\<lambda>r. code r = c) (license_codes d) = Some i \<and>
       \<not> is_used (license_codes d ! i) \<and>
       expires_at (license_codes d ! i) = Some e \<and> tzinfo e = None \<and> \<not> dt_us e < now \<and>
       first_index (\<lambda>u. u_id u = uid) (users d) = Some j \<longrightarrow>
        fst (activate_license_code d now True c uid) =
          Inr (''License activated successfully'', Some (isoformat e)))
   \<and> activate_license_code d now ok c uid =
       (case fst (activate_code d now ok c uid) of
          Inl err \<Rightarrow> Inl (Unhandled err)
        | Inr (success, message, expires) \<Rightarrow>
            if success then Inr (message, expires)
            else Inl (HTTPException 400 (Detail message)),
        snd (activate_code d now ok c uid))"
proof (intro conjI impI)
  assume a: "first_index (\<lambda>r. code r = c) (license_codes d) = Some i \<and>
    \<not> is_used (license_codes d ! i) \<and>
    expires_at (license_codes d ! i) = Some e \<and> tzinfo e = None \<and> \<not> dt_us e < now \<and>
    first_index (\<lambda>u. u_id u = uid) (users d) = None"
  then have v: "validate_code d now c =
                  (Inr (True, ''License code is valid'', Some (isoformat e)), d)"
    by (simp add: validate_code_unused)
  from a have "first_index (\<lambda>u. u_id u = uid) (users d) = None" by simp
  with v show r: "activate_code d now ok c uid = (Inr (False, ''Internal error: License code or user not found after validation.'', None), d)"
    by (rule activate_code_no_user)
  then show "activate_license_code d now ok c uid = (Inl (HTTPException 400 (Detail ''Internal error: License code or user not found after validation.'')), d)"
    by (rule activate_license_code_of)
next
  assume a: "fst (activate_code d now ok c uid) = Inr (b, ''Internal error: License code or user not found after validation.'', x)"
  from activate_code_result [of d now ok c uid] a
  have "\<not> b \<and> first_index (\<lambda>u. u_id u = uid) (users d) = None"
  proof (elim disjE exE conjE)
    fix err assume "activate_code d now ok c uid = (Inl err, d)"
    with a show ?thesis by simp
  next
    fix m' assume f: "fst (validate_code d now c) = Inr (False, m', None)"
      and r: "activate_code d now ok c uid = (Inr (False, m', None), d)"
    from validate_code_False [OF f] a r show ?thesis by auto
  next
    fix y assume "first_index (\<lambda>u. u_id u = uid) (users d) = None"
      and "activate_code d now ok c uid = (Inr (False, ''Internal error: License code or user not found after validation.'', None), d)"
    with a show ?thesis by simp
  next
    fix y d' assume "activate_code d now ok c uid =
                (Inr (True, ''License activated successfully'', y), d')"
    with a show ?thesis by simp
  qed
  then show "\<not> b" and "first_index (\<lambda>u. u_id u = uid) (users d) = None" by simp_all
next
  assume a: "fst (validate_code d now c) = Inr (False, m, x)"
  with validate_code_pair [of d now c] have "validate_code d now c = (Inr (False, m, x), d)"
    by simp
  then show "fst (activate_code d now ok c uid) = Inr (False, m, None)"
    by (simp add: activate_code_invalid)
  from validate_code_False [OF a]
  show m: "m = ''Invalid license code'' \<or> m = ''License code already used'' \<or>
           m = ''License code has expired''" by simp
  then show "m \<noteq> ''Internal error: License code or user not found after validation.''" by auto
next
  assume a: "fst (activate_license_code d now ok c uid) = Inl (HTTPException 400 (Detail ''Internal error: License code or user not found after validation.''))"
  from activate_code_result [of d now ok c uid]
  have "first_index (\<lambda>u. u_id u = uid) (users d) = None
        \<and> (\<exists>y. fst (validate_code d now c) = Inr (True, ''License code is valid'', y))"
  proof (elim disjE exE conjE)
    fix err assume "activate_code d now ok c uid = (Inl err, d)"
    with a show ?thesis by (simp add: activate_license_code_def)
  next
    fix m' assume f: "fst (validate_code d now c) = Inr (False, m', None)"
      and r: "activate_code d now ok c uid = (Inr (False, m', None), d)"
    from a activate_license_code_of [OF r] have "m' = ''Internal error: License code or user not found after validation.''" by simp
    with validate_code_False [OF f] show ?thesis by auto
  next
    fix y assume "fst (validate_code d now c) = Inr (True, ''License code is valid'', y)"
      and "first_index (\<lambda>u. u_id u = uid) (users d) = None"
    then show ?thesis by blast
  next
    fix y d' assume "activate_code d now ok c uid =
                (Inr (True, ''License activated successfully'', y), d')"
    with a show ?thesis by (simp add: activate_license_code_def)
  qed
  then show "first_index (\<lambda>u. u_id u = uid) (users d) = None"
    and "\<exists>y. fst (validate_code d now c) = Inr (True, ''License code is valid'', y)"
    by simp_all
next
  assume a: "fst (validate_code d now c) = Inr (False, m, x)"
  with validate_code_pair [of d now c] have "validate_code d now c = (Inr (False, m, x), d)"
    by simp
  then have "activate_code d now ok c uid = (Inr (False, m, None), d)"
    by (rule activate_code_invalid)
  then show "activate_license_code d now ok c uid = (Inl (HTTPException 400 (Detail m)), d)"
    by (rule activate_license_code_of)
  from validate_code_False [OF a]
  have "m = ''Invalid license code'' \<or> m = ''License code already used'' \<or>
           m = ''License code has expired''" by simp
  then show "HTTPException 400 (Detail m) \<noteq> HTTPException 400 (Detail ''Internal error: License code or user not found after validation.'')" by auto
next
  assume a: "first_index (\<lambda>r. code r = c) (license_codes d) = Some i \<and>
    \<not> is_used (license_codes d ! i) \<and>
    expires_at (license_codes d ! i) = Some e \<and> tzinfo e = None \<and> \<not> dt_us e < now \<and>
    first_index (\<lambda>u. u_id u = uid) (users d) = Some j"
  then have v: "validate_code d now c =
                  (Inr (True, ''License code is valid'', Some (isoformat e)), d)"
    by (simp add: validate_code_unused)
  from a have i: "first_index (\<lambda>r. code r = c) (license_codes d) = Some i"
    and j: "first_index (\<lambda>u. u_id u = uid) (users d) = Some j"
    and e: "expires_at (license_codes d ! i) = Some e" by simp_all
  from activate_code_commit [OF v i j, of True] e
  show "fst (activate_license_code d now True c uid) =
          Inr (''License activated successfully'', Some (isoformat e))"
    by (simp add: activate_license_code_def)
next
  show "activate_license_code d now ok c uid =
       (case fst (activate_code d now ok c uid) of
          Inl err \<Rightarrow> Inl (Unhandled err)
        | Inr (success, message, expires) \<Rightarrow>
            if success then Inr (message, expires)
            else Inl (HTTPException 400 (Detail message)),
        snd (activate_code d now ok c uid))"
    by (simp add: activate_license_code_def split: prod.splits sum.splits)
qed

theorem activate_code_account_not_found_witness:
  "activate_code sample_db 63871286400000000 True ''FRESH'' 99 =
     (Inr (False, ''Internal error: License code or user not found after validation.'', None), sample_db)
   \<and> activate_license_code sample_db 63871286400000000 True ''FRESH'' 99 =
     (Inl (HTTPException 400 (Detail ''Internal error: License code or user not found after validation.'')), sample_db)
   \<and> first_index (\<lambda>u. u_id u = 99) (users sample_db) = None
   \<and> (\<exists>y. fst (validate_code sample_db 63871286400000000 ''FRESH'') =
            Inr (True, ''License code is valid'', y))
   \<and> fst (validate_code sample_db 63871286400000000 ''SPENT'') =
       Inr (False, ''License code already used'', None)
   \<and> fst (activate_code sample_db 63871286400000000 True ''SPENT'' 99) =
       Inr (False, ''License code already used'', None)
   \<and> ''License code already used'' \<noteq> ''Internal error: License code or user not found after validation.''
   \<and> activate_license_code sample_db 63871286400000000 True ''SPENT'' 99 =
       (Inl (HTTPException 400 (Detail ''License code already used'')), sample_db)
   \<and> HTTPException 400 (Detail ''License code already used'') \<noteq>
       HTTPException 400 (Detail ''Internal error: License code or user not found after validation.'')
   \<and> first_index (\<lambda>u. u_id u = 1) (users sample_db) = Some 0
   \<and> fst (activate_license_code sample_db 63871286400000000 True ''FRESH'' 1) =
       Inr (''License activated successfully'',
            Some (isoformat \<lparr>dt_us = 63873878400000000, tzinfo = None\<rparr>))"
proof -
  have f: "first_index (\<lambda>r. code r = ''FRESH'') (license_codes sample_db) = Some 0
           \<and> \<not> is_used (license_codes sample_db ! 0)
           \<and> expires_at (license_codes sample_db ! 0) =
               Some \<lparr>dt_us = 63873878400000000, tzinfo = None\<rparr>
           \<and> tzinfo \<lparr>dt_us = 63873878400000000, tzinfo = None\<rparr> = None
           \<and> \<not> dt_us \<lparr>dt_us = 63873878400000000, tzinfo = None\<rparr> < 63871286400000000"
    by (simp add: sample_db_def sample_codes_def)
  have u99: "first_index (\<lambda>u. u_id u = 99) (users sample_db) = None"
    by (simp add: sample_db_def sample_users_def)
  have u1: "first_index (\<lambda>u. u_id u = 1) (users sample_db) = Some 0"
    by (simp add: sample_db_def sample_users_def)
  have s: "first_index (\<lambda>r. code r = ''SPENT'') (license_codes sample_db) = Some 1"
    "is_used (license_codes sample_db ! 1)"
    by (simp_all add: sample_db_def sample_codes_def)
  have v: "fst (validate_code sample_db 63871286400000000 ''SPENT'') =
       Inr (False, ''License code already used'', None)"
    using validate_code_used [OF s, of 63871286400000000] by simp
  note w = activate_code_account_not_found
             [where d = sample_db and now = 63871286400000000 and ok = True]
  from w [where c = "''FRESH''" and i = 0 and uid = 99
            and e = "\<lparr>dt_us = 63873878400000000, tzinfo = None\<rparr>"] f u99
  have 1: "activate_code sample_db 63871286400000000 True ''FRESH'' 99 =
     (Inr (False, ''Internal error: License code or user not found after validation.'', None), sample_db)
   \<and> activate_license_code sample_db 63871286400000000 True ''FRESH'' 99 =
     (Inl (HTTPException 400 (Detail ''Internal error: License code or user not found after validation.'')), sample_db)" by blast
  then have r: "fst (activate_license_code sample_db 63871286400000000 True ''FRESH'' 99) =
     Inl (HTTPException 400 (Detail ''Internal error: License code or user not found after validation.''))" by simp
  with w [where c = "''FRESH''" and uid = 99]
  have 2: "first_index (\<lambda>u. u_id u = 99) (users sample_db) = None
     \<and> (\<exists>y. fst (validate_code sample_db 63871286400000000 ''FRESH'') =
            Inr (True, ''License code is valid'', y))" by blast
  from w [where c = "''SPENT''" and uid = 99 and m = "''License code already used''"
            and x = None] v
  have 3: "fst (activate_code sample_db 63871286400000000 True ''SPENT'' 99) =
       Inr (False, ''License code already used'', None)
     \<and> ''License code already used'' \<noteq> ''Internal error: License code or user not found after validation.''
     \<and> activate_license_code sample_db 63871286400000000 True ''SPENT'' 99 =
       (Inl (HTTPException 400 (Detail ''License code already used'')), sample_db)
     \<and> HTTPException 400 (Detail ''License code already used'') \<noteq>
       HTTPException 400 (Detail ''Internal error: License code or user not found after validation.'')" by blast
  from w [where c = "''FRESH''" and i = 0 and uid = 1 and j = 0
            and e = "\<lparr>dt_us = 63873878400000000, tzinfo = None\<rparr>"] f u1
  have 4: "fst (activate_license_code sample_db 63871286400000000 True ''FRESH'' 1) =
       Inr (''License activated successfully'',
            Some (isoformat \<lparr>dt_us = 63873878400000000, tzinfo = None\<rparr>))" by blast
  from 1 2 3 4 v u1 show ?thesis by blast
qed

section \<open>The session gate\<close>

lemma dt_less_aware_now:
  "dt_less (replace_tzinfo e (Some UTC)) (datetime_now now) = Inr (dt_us e < now)"
  by (simp add: dt_less_def replace_tzinfo_def datetime_now_def)

lemma login_inactive:
  "first_index (\<lambda>u. username u = name) (users d) = Some j \<Longrightarrow>
   verify pw (password (users d ! j)) \<Longrightarrow> \<not> is_active (users d ! j) \<Longrightarrow>
   login verify d now ok name pw =
     (Inr (JSONResponse 403 ''Account not activated. Please enter activation code.''
             (u_id (users d ! j))), d)"
  by (simp add: login_def)

lemma login_expired:
  "first_index (\<lambda>u. username u = name) (users d) = Some j \<Longrightarrow>
   verify pw (password (users d ! j)) \<Longrightarrow> is_active (users d ! j) \<Longrightarrow>
   expiration_date (users d ! j) = Some e \<Longrightarrow> dt_us e < now \<Longrightarrow>
   login verify d now ok name pw =
     (if ok
      then (Inr (JSONResponse 403 ''Subscription expired. Please renew your license.''
                   (u_id (users d ! j))),
            d\<lparr>users := (users d)[j := (users d ! j)\<lparr>is_active := False,
                                                      expiration_date := None\<rparr>]\<rparr>)
      else (Inl (HTTPException 500 (Detail ''Internal Server Error'')), d))"
  by (simp add: login_def dt_less_aware_now commit_def Let_def)

text \<open>
  C10. A login with correct credentials against an account whose \<^verbatim>\<open>is_active\<close> is false
  returns the 403 "Account not activated" response carrying the account's id, whatever
  the account's \<^verbatim>\<open>expiration_date\<close> and the clock are, and leaves every table as it was;
  in particular the account keeps its stored \<^verbatim>\<open>expiration_date\<close>, also one in the past.
\<close>

theorem login_inactive_frame:
  assumes "first_index (\<lambda>u. username u = name) (users d) = Some j"
    and "verify pw (password (users d ! j))"
    and "\<not> is_active (users d ! j)"
  shows "login verify d now ok name pw =
           (Inr (JSONResponse 403 ''Account not activated. Please enter activation code.''
                   (u_id (users d ! j))), d)
         \<and> expiration_date (users (snd (login verify d now ok name pw)) ! j) =
             expiration_date (users d ! j)"
  using login_inactive [where verify = verify and pw = pw, OF assms] by simp

theorem login_inactive_frame_witness:
  "first_index (\<lambda>u. username u = ''carol'') (users sample_db) = Some 2
   \<and> plain_verify ''c'' (password (users sample_db ! 2))
   \<and> \<not> is_active (users sample_db ! 2)
   \<and> login plain_verify sample_db 63871286400000000 True ''carol'' ''c'' =
       (Inr (JSONResponse 403 ''Account not activated. Please enter activation code.'' 3),
        sample_db)
   \<and> expiration_date
        (users (snd (login plain_verify sample_db 63871286400000000 True ''carol'' ''c'')) ! 2) =
       Some \<lparr>dt_us = 63868608000000000, tzinfo = None\<rparr>
   \<and> dt_us \<lparr>dt_us = 63868608000000000, tzinfo = None\<rparr> < 63871286400000000"
proof -
  have 1: "first_index (\<lambda>u. username u = ''carol'') (users sample_db) = Some 2"
    by (simp add: sample_db_def sample_users_def)
  have 2: "plain_verify ''c'' (password (users sample_db ! 2))"
    by (simp add: sample_db_def sample_users_def plain_verify_def)
  have 3: "\<not> is_active (users sample_db ! 2)"
    by (simp add: sample_db_def sample_users_def)
  have 4: "u_id (users sample_db ! 2) = 3"
    "expiration_date (users sample_db ! 2) =
       Some \<lparr>dt_us = 63868608000000000, tzinfo = None\<rparr>"
    by (simp_all add: sample_db_def sample_users_def)
  from login_inactive_frame [where verify = plain_verify and pw = "''c''" and now = 63871286400000000 and ok = True, OF 1 2 3] 1 2 3 4
  show ?thesis by simp
qed

text \<open>
  C5. A login with correct credentials against an account with \<^verbatim>\<open>is_active\<close> true and an
  \<^verbatim>\<open>expiration_date\<close> earlier than the current time, the commit being accepted, stores
  the account with \<^verbatim>\<open>is_active\<close> false and \<^verbatim>\<open>expiration_date\<close> NULL, changes nothing
  else, and returns the 403 "Subscription expired" response with the account's id, whose
  detail differs from that of the "Account not activated" response. Every later login
  with the same credentials gets the "Account not activated" response and changes nothing.
\<close>

theorem login_lazy_expiry:
  assumes "first_index (\<lambda>u. username u = name) (users d) = Some j"
    and "verify pw (password (users d ! j))"
    and "is_active (users d ! j)"
    and "expiration_date (users d ! j) = Some e"
    and "dt_us e < now"
  shows "login verify d now True name pw =
           (Inr (JSONResponse 403 ''Subscription expired. Please renew your license.''
                   (u_id (users d ! j))),
            d\<lparr>users := (users d)[j := (users d ! j)\<lparr>is_active := False,
                                                      expiration_date := None\<rparr>]\<rparr>)
         \<and> ''Subscription expired. Please renew your license.'' \<noteq>
             ''Account not activated. Please enter activation code.''
         \<and> login verify (snd (login verify d now True name pw)) now' ok' name pw =
             (Inr (JSONResponse 403 ''Account not activated. Please enter activation code.''
                     (u_id (users d ! j))),
              snd (login verify d now True name pw))"
proof -
  let ?u = "(users d ! j)\<lparr>is_active := False, expiration_date := None\<rparr>"
  let ?d = "d\<lparr>users := (users d)[j := ?u]\<rparr>"
  have 1: "login verify d now True name pw =
           (Inr (JSONResponse 403 ''Subscription expired. Please renew your license.''
                   (u_id (users d ! j))), ?d)"
    using login_expired [where verify = verify and pw = pw and ok = True, OF assms] by simp
  have j: "j < length (users d)" by (rule first_index_Some_less [OF assms(1)])
  have "first_index (\<lambda>u. username u = name) ((users d)[j := ?u]) =
          first_index (\<lambda>u. username u = name) (users d)"
    using j by (rule first_index_update) simp
  with assms(1) have a: "first_index (\<lambda>u. username u = name) (users ?d) = Some j" by simp
  have n: "users ?d ! j = ?u" using j by simp
  have b: "verify pw (password (users ?d ! j))" using assms(2) by (simp only: n) simp
  have c: "\<not> is_active (users ?d ! j)" by (simp only: n) simp
  have "login verify ?d now' ok' name pw =
             (Inr (JSONResponse 403 ''Account not activated. Please enter activation code.''
                     (u_id (users ?d ! j))), ?d)"
    by (rule login_inactive [where verify = verify and pw = pw, OF a b c])
  moreover have "u_id (users ?d ! j) = u_id (users d ! j)" by (simp only: n) simp
  ultimately have 2: "login verify ?d now' ok' name pw =
             (Inr (JSONResponse 403 ''Account not activated. Please enter activation code.''
                     (u_id (users d ! j))), ?d)" by simp
  from 1 2 show ?thesis by simp
qed

theorem login_lazy_expiry_witness:
  "first_index (\<lambda>u. username u = ''bob'') (users sample_db) = Some 1
   \<and> plain_verify ''b'' (password (users sample_db ! 1))
   \<and> is_active (users sample_db ! 1)
   \<and> expiration_date (users sample_db ! 1) =
       Some \<lparr>dt_us = 63871200000000000, tzinfo = None\<rparr>
   \<and> dt_us \<lparr>dt_us = 63871200000000000, tzinfo = None\<rparr> < 63871286400000000
   \<and> login plain_verify sample_db 63871286400000000 True ''bob'' ''b'' =
       (Inr (JSONResponse 403 ''Subscription expired. Please renew your license.'' 2),
        sample_db\<lparr>users := (users sample_db)[1 := (users sample_db ! 1)\<lparr>is_active := False,
                                                      expiration_date := None\<rparr>]\<rparr>)
   \<and> login plain_verify
        (snd (login plain_verify sample_db 63871286400000000 True ''bob'' ''b''))
        63871372800000000 True ''bob'' ''b'' =
       (Inr (JSONResponse 403 ''Account not activated. Please enter activation code.'' 2),
        snd (login plain_verify sample_db 63871286400000000 True ''bob'' ''b''))"
proof -
  have 1: "first_index (\<lambda>u. username u = ''bob'') (users sample_db) = Some 1"
    by (simp add: sample_db_def sample_users_def)
  have 2: "plain_verify ''b'' (password (users sample_db ! 1))"
    by (simp add: sample_db_def sample_users_def plain_verify_def)
  have 3: "is_active (users sample_db ! 1)"
    by (simp add: sample_db_def sample_users_def)
  have 4: "expiration_date (users sample_db ! 1) =
       Some \<lparr>dt_us = 63871200000000000, tzinfo = None\<rparr>"
    by (simp add: sample_db_def sample_users_def)
  have 5: "dt_us \<lparr>dt_us = 63871200000000000, tzinfo = None\<rparr> < 63871286400000000"
    by simp
  have 6: "u_id (users sample_db ! 1) = 2"
    by (simp add: sample_db_def sample_users_def)
  note w = login_lazy_expiry [where verify = plain_verify and pw = "''b''"
               and now' = 63871372800000000 and ok' = True, OF 1 2 3 4 5, unfolded 6]
  from w 1 2 3 4 5 show ?thesis by blast
qed

section \<open>Creation of license codes\<close>

lemma naive_now:
  "replace_tzinfo (datetime_now now) None = \<lparr>dt_us = now, tzinfo = None\<rparr>"
  by (simp add: replace_tzinfo_def datetime_now_def)

lemma add_days_naive_now:
  "add_days \<lparr>dt_us = now, tzinfo = None\<rparr> days =
     (if days < - 999999999 \<or> 999999999 < days \<or> now + days * us_per_day < 0 \<or>
         max_us \<le> now + days * us_per_day
      then Inl OverflowError
      else Inr \<lparr>dt_us = now + days * us_per_day, tzinfo = None\<rparr>)"
  by (simp add: add_days_def)

lemma create_license_code_Inr:
  assumes "create_license_code d now ok gen days = (Inr lc, d')"
  shows "lc = \<lparr>c_id = next_id (map c_id (license_codes d)), code = gen, is_used = False,
               created_at = Some \<lparr>dt_us = now, tzinfo = None\<rparr>,
               expires_at = Some \<lparr>dt_us = now + days * us_per_day, tzinfo = None\<rparr>,
               used_by = None\<rparr>
         \<and> d' = d\<lparr>license_codes := license_codes d @ [lc]\<rparr>"
proof -
  let ?t = "\<lparr>dt_us = now + days * us_per_day, tzinfo = None\<rparr>"
  note n = naive_now [of now]
  show ?thesis
  proof (cases "add_days \<lparr>dt_us = now, tzinfo = None\<rparr> days")
    case (Inl e)
    with assms show ?thesis by (simp add: create_license_code_def n)
  next
    case (Inr t)
    then have t: "t = ?t"
      by (simp add: add_days_naive_now split: if_splits)
    from assms Inr have ok and "gen \<notin> set (map code (license_codes d))"
      by (auto simp: create_license_code_def commit_def Let_def n split: if_splits)
    with assms Inr show ?thesis
      by (auto simp: create_license_code_def commit_def Let_def t n)
  qed
qed

text \<open>
  C7, as the code has it. \<^verbatim>\<open>create_license_code\<close> does not look at the sign of
  \<^verbatim>\<open>duration_days\<close>. It succeeds whenever the date arithmetic stays in range, the token
  is not stored yet and the commit is accepted; it then appends a code with
  \<^verbatim>\<open>created_at\<close> the current time and \<^verbatim>\<open>expires_at\<close> that time plus
  \<^verbatim>\<open>duration_days\<close> days. Hence a code it persists has \<^verbatim>\<open>expires_at > created_at\<close>
  exactly when \<^verbatim>\<open>duration_days > 0\<close>.
\<close>

theorem create_license_code_expiry:
  "(create_license_code d now ok gen days = (Inr lc, d') \<longrightarrow>
      d' = d\<lparr>license_codes := license_codes d @ [lc]\<rparr>
      \<and> created_at lc = Some \<lparr>dt_us = now, tzinfo = None\<rparr>
      \<and> expires_at lc = Some \<lparr>dt_us = now + days * us_per_day, tzinfo = None\<rparr>
      \<and> expires_after_created lc = (0 < days))
   \<and> (- 999999999 \<le> days \<and> days \<le> 999999999 \<and> 0 \<le> now + days * us_per_day \<and>
       now + days * us_per_day < max_us \<and> gen \<notin> set (map code (license_codes d)) \<longrightarrow>
      (\<exists>lc'. create_license_code d now True gen days =
               (Inr lc', d\<lparr>license_codes := license_codes d @ [lc']\<rparr>)))"
proof (intro conjI impI)
  assume a: "create_license_code d now ok gen days = (Inr lc, d')"
  note r = create_license_code_Inr [OF a]
  from r show "d' = d\<lparr>license_codes := license_codes d @ [lc]\<rparr>" by simp
  from r show c: "created_at lc = Some \<lparr>dt_us = now, tzinfo = None\<rparr>" by simp
  from r show e: "expires_at lc = Some \<lparr>dt_us = now + days * us_per_day, tzinfo = None\<rparr>"
    by simp
  show "expires_after_created lc = (0 < days)"
    by (simp add: expires_after_created_def c e us_per_day_def)
next
  assume "- 999999999 \<le> days \<and> days \<le> 999999999 \<and> 0 \<le> now + days * us_per_day \<and>
       now + days * us_per_day < max_us \<and> gen \<notin> set (map code (license_codes d))"
  then show "\<exists>lc'. create_license_code d now True gen days =
               (Inr lc', d\<lparr>license_codes := license_codes d @ [lc']\<rparr>)"
    by (simp add: create_license_code_def naive_now add_days_naive_now commit_def Let_def)
qed

theorem create_license_code_expiry_witness:
  "create_license_code empty_db 63871286400000000 True ''ABCDEFGHIJKLMNOP'' 30 =
     (Inr \<lparr>c_id = 1, code = ''ABCDEFGHIJKLMNOP'', is_used = False,
           created_at = Some \<lparr>dt_us = 63871286400000000, tzinfo = None\<rparr>,
           expires_at = Some \<lparr>dt_us = 63873878400000000, tzinfo = None\<rparr>,
           used_by = None\<rparr>,
      empty_db\<lparr>license_codes := license_codes empty_db @
         [\<lparr>c_id = 1, code = ''ABCDEFGHIJKLMNOP'', is_used = False,
           created_at = Some \<lparr>dt_us = 63871286400000000, tzinfo = None\<rparr>,
           expires_at = Some \<lparr>dt_us = 63873878400000000, tzinfo = None\<rparr>,
           used_by = None\<rparr>]\<rparr>)
   \<and> expires_after_created
       \<lparr>c_id = 1, code = ''ABCDEFGHIJKLMNOP'', is_used = False,
        created_at = Some \<lparr>dt_us = 63871286400000000, tzinfo = None\<rparr>,
        expires_at = Some \<lparr>dt_us = 63873878400000000, tzinfo = None\<rparr>,
        used_by = None\<rparr> = ((0::int) < 30)
   \<and> (\<exists>lc'. create_license_code empty_db 63871286400000000 True ''ABCDEFGHIJKLMNOP'' (- 7) =
               (Inr lc', empty_db\<lparr>license_codes := license_codes empty_db @ [lc']\<rparr>))"
proof -
  let ?lc = "\<lparr>c_id = 1, code = ''ABCDEFGHIJKLMNOP'', is_used = False,
           created_at = Some \<lparr>dt_us = 63871286400000000, tzinfo = None\<rparr>,
           expires_at = Some \<lparr>dt_us = 63873878400000000, tzinfo = None\<rparr>,
           used_by = None\<rparr>"
  have run: "create_license_code empty_db 63871286400000000 True ''ABCDEFGHIJKLMNOP'' 30 =
     (Inr ?lc, empty_db\<lparr>license_codes := license_codes empty_db @ [?lc]\<rparr>)"
    by (simp add: create_license_code_def naive_now add_days_naive_now commit_def Let_def
          empty_db_def next_id_def us_per_day_def max_us_def)
  have rng: "- 999999999 \<le> (- 7::int) \<and> (- 7::int) \<le> 999999999 \<and>
       0 \<le> 63871286400000000 + (- 7) * us_per_day \<and>
       63871286400000000 + (- 7) * us_per_day < max_us \<and>
       ''ABCDEFGHIJKLMNOP'' \<notin> set (map code (license_codes empty_db))"
    by (simp add: us_per_day_def max_us_def empty_db_def)
  from create_license_code_expiry
         [where d = empty_db and now = 63871286400000000 and ok = True
            and gen = "''ABCDEFGHIJKLMNOP''" and days = 30 and lc = ?lc
            and d' = "empty_db\<lparr>license_codes := license_codes empty_db @ [?lc]\<rparr>"] run
  have 1: "expires_after_created ?lc = ((0::int) < 30)" by blast
  from create_license_code_expiry
         [where d = empty_db and now = 63871286400000000
            and gen = "''ABCDEFGHIJKLMNOP''" and days = "- 7"] rng
  have 2: "\<exists>lc'. create_license_code empty_db 63871286400000000 True
                    ''ABCDEFGHIJKLMNOP'' (- 7) =
               (Inr lc', empty_db\<lparr>license_codes := license_codes empty_db @ [lc']\<rparr>)"
    by blast
  from run 1 2 show ?thesis by blast
qed

theorem create_zero_duration_counterexample:
  "create_license_code empty_db 63871286400000000 True ''ABCDEFGHIJKLMNOP'' 0 =
     (Inr \<lparr>c_id = 1, code = ''ABCDEFGHIJKLMNOP'', is_used = False,
           created_at = Some \<lparr>dt_us = 63871286400000000, tzinfo = None\<rparr>,
           expires_at = Some \<lparr>dt_us = 63871286400000000, tzinfo = None\<rparr>,
           used_by = None\<rparr>,
      \<lparr>users = [], licenses = [],
       license_codes =
         [\<lparr>c_id = 1, code = ''ABCDEFGHIJKLMNOP'', is_used = False,
           created_at = Some \<lparr>dt_us = 63871286400000000, tzinfo = None\<rparr>,
           expires_at = Some \<lparr>dt_us = 63871286400000000, tzinfo = None\<rparr>,
           used_by = None\<rparr>]\<rparr>)
   \<and> generate_license_code empty_db 63871286400000000 True ''ABCDEFGHIJKLMNOP'' 0 =
     (Inr \<lparr>c_id = 1, code = ''ABCDEFGHIJKLMNOP'', is_used = False,
           created_at = Some \<lparr>dt_us = 63871286400000000, tzinfo = None\<rparr>,
           expires_at = Some \<lparr>dt_us = 63871286400000000, tzinfo = None\<rparr>,
           used_by = None\<rparr>,
      \<lparr>users = [], licenses = [],
       license_codes =
         [\<lparr>c_id = 1, code = ''ABCDEFGHIJKLMNOP'', is_used = False,
           created_at = Some \<lparr>dt_us = 63871286400000000, tzinfo = None\<rparr>,
           expires_at = Some \<lparr>dt_us = 63871286400000000, tzinfo = None\<rparr>,
           used_by = None\<rparr>]\<rparr>)
   \<and> \<not> expires_after_created
         \<lparr>c_id = 1, code = ''ABCDEFGHIJKLMNOP'', is_used = False,
          created_at = Some \<lparr>dt_us = 63871286400000000, tzinfo = None\<rparr>,
          expires_at = Some \<lparr>dt_us = 63871286400000000, tzinfo = None\<rparr>,
          used_by = None\<rparr>"
  by (simp add: generate_license_code_def create_license_code_def naive_now
        add_days_naive_now commit_def Let_def empty_db_def next_id_def us_per_day_def max_us_def
        expires_after_created_def)

section \<open>Time zones of stored timestamps\<close>

lemma list_all_update:
  "list_all P xs \<Longrightarrow> P v \<Longrightarrow> list_all P (xs[i := v])"
  by (induction xs arbitrary: i) (auto split: nat.splits)

lemma timestamps_naive_codes:
  "timestamps_naive d \<Longrightarrow> i < length (license_codes d) \<Longrightarrow>
   naive_or_null (created_at (license_codes d ! i)) \<and>
   naive_or_null (expires_at (license_codes d ! i))"
  by (simp add: timestamps_naive_def list_all_length)

lemma create_license_code_timestamps:
  assumes "timestamps_naive d"
  shows "timestamps_naive (snd (create_license_code d now ok gen days))"
proof (cases "create_license_code d now ok gen days")
  case (Pair r d')
  show ?thesis
  proof (cases r)
    case (Inl e)
    with create_license_code_effect [of d now ok gen days] Pair assms
    have "d' = d \<or> (\<exists>lc. d' = d\<lparr>license_codes := license_codes d @ [lc]\<rparr>)" by simp
    moreover have "d' = d"
      using Pair Inl
      by (cases ok)
         (auto simp: create_license_code_def commit_def Let_def split: sum.splits if_splits)
    ultimately show ?thesis using Pair assms by simp
  next
    case (Inr lc)
    with Pair create_license_code_Inr [of d now ok gen days lc d']
    have lc: "created_at lc = Some \<lparr>dt_us = now, tzinfo = None\<rparr>"
      "expires_at lc = Some \<lparr>dt_us = now + days * us_per_day, tzinfo = None\<rparr>"
      and d': "d' = d\<lparr>license_codes := license_codes d @ [lc]\<rparr>" by simp_all
    from assms show ?thesis
      by (simp add: Pair d' timestamps_naive_def naive_or_null_def lc)
  qed
qed

lemma activate_code_shape:
  "snd (activate_code d now ok c uid) = d \<or>
   (\<exists>i j. i < length (license_codes d) \<and>
      snd (activate_code d now ok c uid) =
        d\<lparr>license_codes :=
             (license_codes d)[i := (license_codes d ! i)\<lparr>is_used := True,
                                                           used_by := Some uid\<rparr>],
           users :=
             (users d)[j := (users d ! j)\<lparr>is_active := True,
                 expiration_date := expires_at (license_codes d ! i)\<rparr>]\<rparr>)"
proof (cases "\<forall>m x. fst (activate_code d now ok c uid) \<noteq> Inr (True, m, x)")
  case True
  then show ?thesis by (simp add: activate_code_unchanged_unless_success)
next
  case False
  then obtain m x where s: "fst (activate_code d now ok c uid) = Inr (True, m, x)" by blast
  show ?thesis
  proof (cases "fst (validate_code d now c)")
    case (Inl err)
    with validate_code_pair [of d now c] have "validate_code d now c = (Inl err, d)" by simp
    with s show ?thesis by (simp add: activate_code_raised)
  next
    case (Inr t)
    obtain b m' x' where t: "t = (b, m', x')" by (cases t)
    with Inr validate_code_pair [of d now c]
    have v: "validate_code d now c = (Inr (b, m', x'), d)" by simp
    show ?thesis
    proof (cases b)
      case False
      with v s show ?thesis by (simp add: activate_code_invalid)
    next
      case True
      from validate_code_True [of d now c m' x'] v True
      obtain i where i: "first_index (\<lambda>r. code r = c) (license_codes d) = Some i" by auto
      show ?thesis
      proof (cases "first_index (\<lambda>u. u_id u = uid) (users d)")
        case None
        with v True s show ?thesis by (simp add: activate_code_no_user)
      next
        case (Some j)
        from activate_code_commit [of d now c m' x' i uid j ok] v True i Some s
        have "snd (activate_code d now ok c uid) =
                d\<lparr>license_codes :=
                     (license_codes d)[i := (license_codes d ! i)\<lparr>is_used := True,
                                                                   used_by := Some uid\<rparr>],
                   users :=
                     (users d)[j := (users d ! j)\<lparr>is_active := True,
                         expiration_date := expires_at (license_codes d ! i)\<rparr>]\<rparr>"
          by (cases ok) simp_all
        with first_index_Some_less [OF i] show ?thesis by blast
      qed
    qed
  qed
qed

lemma activate_code_timestamps:
  assumes "timestamps_naive d"
  shows "timestamps_naive (snd (activate_code d now ok c uid))"
  using activate_code_shape [of d now ok c uid]
proof (elim disjE exE conjE)
  assume "snd (activate_code d now ok c uid) = d"
  with assms show ?thesis by simp
next
  fix i j
  assume i: "i < length (license_codes d)"
    and e: "snd (activate_code d now ok c uid) =
        d\<lparr>license_codes :=
             (license_codes d)[i := (license_codes d ! i)\<lparr>is_used := True,
                                                           used_by := Some uid\<rparr>],
           users :=
             (users d)[j := (users d ! j)\<lparr>is_active := True,
                 expiration_date := expires_at (license_codes d ! i)\<rparr>]\<rparr>"
  note n = timestamps_naive_codes [OF assms i]
  have 1: "list_all (\<lambda>r. naive_or_null (created_at r) \<and> naive_or_null (expires_at r))
             ((license_codes d)[i := (license_codes d ! i)\<lparr>is_used := True,
                                                           used_by := Some uid\<rparr>])"
    using assms n by (intro list_all_update) (simp_all add: timestamps_naive_def)
  have 2: "list_all (\<lambda>u. naive_or_null (expiration_date u))
             ((users d)[j := (users d ! j)\<lparr>is_active := True,
                 expiration_date := expires_at (license_codes d ! i)\<rparr>])"
    using assms n by (intro list_all_update) (simp_all add: timestamps_naive_def)
  from 1 2 show ?thesis by (simp add: e timestamps_naive_def)
qed

lemma login_shape:
  "snd (login verify d now ok name pw) = d \<or>
   (\<exists>j. snd (login verify d now ok name pw) =
      d\<lparr>users := (users d)[j := (users d ! j)\<lparr>is_active := False,
                                                expiration_date := None\<rparr>]\<rparr>)"
  by (cases ok)
     (auto simp: login_def commit_def Let_def split: option.splits sum.splits bool.splits)

lemma login_timestamps:
  assumes "timestamps_naive d"
  shows "timestamps_naive (snd (login verify d now ok name pw))"
  using login_shape [of verify d now ok name pw]
proof (elim disjE exE)
  assume "snd (login verify d now ok name pw) = d"
  with assms show ?thesis by simp
next
  fix j
  assume e: "snd (login verify d now ok name pw) =
      d\<lparr>users := (users d)[j := (users d ! j)\<lparr>is_active := False,
                                                expiration_date := None\<rparr>]\<rparr>"
  have "list_all (\<lambda>u. naive_or_null (expiration_date u))
          ((users d)[j := (users d ! j)\<lparr>is_active := False, expiration_date := None\<rparr>])"
    using assms
    by (intro list_all_update) (simp_all add: timestamps_naive_def naive_or_null_def)
  with assms show ?thesis by (simp add: e timestamps_naive_def)
qed

lemma verify_license_shape:
  "snd (verify_license d now ok name k) = d \<or>
   (\<exists>i j t. add_days (datetime_now now) (duration_days (licenses d ! i)) = Inr t \<and>
      fst (verify_license d now ok name k) =
        Inr (''Account activated successfully'', isoformat t) \<and>
      snd (verify_license d now ok name k) =
        d\<lparr>users := (users d)[j := (users d ! j)\<lparr>is_active := True,
                 expiration_date := Some (stored_DateTime t)\<rparr>],
          licenses := (licenses d)[i := (licenses d ! i)\<lparr>l_is_used := 1\<rparr>]\<rparr>)"
proof (cases "first_index (\<lambda>l. key l = k) (licenses d)")
  case None
  then show ?thesis by (simp add: verify_license_def)
next
  case (Some i)
  show ?thesis
  proof (cases "first_index (\<lambda>u. username u = name) (users d)")
    case None
    with Some show ?thesis by (simp add: verify_license_def Let_def)
  next
    case j: (Some j)
    show ?thesis
    proof (cases "add_days (datetime_now now) (duration_days (licenses d ! i))")
      case (Inl e)
      with Some j show ?thesis by (simp add: verify_license_def Let_def)
    next
      case (Inr t)
      show ?thesis
      proof (cases "l_is_used (licenses d ! i) \<noteq> 1 \<and> ok")
        case False
        with Some j Inr show ?thesis
          by (auto simp: verify_license_def commit_def Let_def)
      next
        case True
        with Some j Inr
        have "fst (verify_license d now ok name k) =
                Inr (''Account activated successfully'', isoformat t) \<and>
              snd (verify_license d now ok name k) =
                d\<lparr>users := (users d)[j := (users d ! j)\<lparr>is_active := True,
                         expiration_date := Some (stored_DateTime t)\<rparr>],
                  licenses := (licenses d)[i := (licenses d ! i)\<lparr>l_is_used := 1\<rparr>]\<rparr>"
          by (simp add: verify_license_def commit_def Let_def)
        with Inr show ?thesis by blast
      qed
    qed
  qed
qed

lemma verify_license_timestamps:
  assumes "timestamps_naive d"
  shows "timestamps_naive (snd (verify_license d now ok name k))"
  using verify_license_shape [of d now ok name k]
proof (elim disjE exE conjE)
  assume "snd (verify_license d now ok name k) = d"
  with assms show ?thesis by simp
next
  fix i j t
  assume e: "snd (verify_license d now ok name k) =
        d\<lparr>users := (users d)[j := (users d ! j)\<lparr>is_active := True,
                 expiration_date := Some (stored_DateTime t)\<rparr>],
          licenses := (licenses d)[i := (licenses d ! i)\<lparr>l_is_used := 1\<rparr>]\<rparr>"
  have "list_all (\<lambda>u. naive_or_null (expiration_date u))
          ((users d)[j := (users d ! j)\<lparr>is_active := True,
                 expiration_date := Some (stored_DateTime t)\<rparr>])"
    using assms
    by (intro list_all_update)
       (simp_all add: timestamps_naive_def naive_or_null_def stored_DateTime_def
          replace_tzinfo_def)
  with assms show ?thesis by (simp add: e timestamps_naive_def)
qed

lemma signup_timestamps:
  assumes "timestamps_naive d"
  shows "timestamps_naive (snd (signup hash d ok name pw))"
  using assms
  by (cases ok)
     (auto simp: signup_def commit_def Let_def timestamps_naive_def naive_or_null_def
        split: option.splits)

lemma timestamps_naive_handle:
  assumes "timestamps_naive d"
  shows "timestamps_naive (handle hash verify d r)"
proof -
  obtain now ok q where r: "r = (now, ok, q)" by (cases r)
  show ?thesis
  proof (cases q)
    case (Generate gen days)
    with assms r show ?thesis
      by (simp add: generate_license_code_snd create_license_code_timestamps)
  next
    case (Validate c)
    with assms r show ?thesis by (simp add: validate_license_code_snd)
  next
    case (Activate c uid)
    with assms r show ?thesis
      by (simp add: activate_license_code_snd activate_code_timestamps)
  next
    case (Login name pw)
    with assms r show ?thesis by (simp add: login_timestamps)
  next
    case (VerifyLicense name k)
    with assms r show ?thesis by (simp add: verify_license_timestamps)
  next
    case (Signup name pw)
    with assms r show ?thesis by (simp add: signup_timestamps)
  qed
qed

lemma timestamps_naive_run:
  "timestamps_naive d \<Longrightarrow> timestamps_naive (run hash verify d rs)"
  unfolding run_def by (induction rs arbitrary: d) (simp_all add: timestamps_naive_handle)

lemma timestamps_naive_empty: "timestamps_naive empty_db"
  by (simp add: timestamps_naive_def empty_db_def)

lemma add_days_aware_now:
  "add_days (datetime_now now) n = Inr t \<Longrightarrow>
   t = \<lparr>dt_us = now + n * us_per_day, tzinfo = Some UTC\<rparr>"
  by (auto simp: add_days_def datetime_now_def split: if_splits)

lemma verify_license_Inr:
  assumes "fst (verify_license d now ok name k) = Inr body"
  shows "\<exists>i j. first_index (\<lambda>l. key l = k) (licenses d) = Some i \<and>
           first_index (\<lambda>u. username u = name) (users d) = Some j \<and>
           body = (''Account activated successfully'',
                   isoformat \<lparr>dt_us = now + duration_days (licenses d ! i) * us_per_day,
                              tzinfo = Some UTC\<rparr>) \<and>
           snd (verify_license d now ok name k) =
             d\<lparr>users := (users d)[j := (users d ! j)\<lparr>is_active := True,
                   expiration_date :=
                     Some \<lparr>dt_us = now + duration_days (licenses d ! i) * us_per_day,
                           tzinfo = None\<rparr>\<rparr>],
               licenses := (licenses d)[i := (licenses d ! i)\<lparr>l_is_used := 1\<rparr>]\<rparr>"
proof (cases "first_index (\<lambda>l. key l = k) (licenses d)")
  case None
  with assms show ?thesis by (simp add: verify_license_def)
next
  case (Some i)
  show ?thesis
  proof (cases "first_index (\<lambda>u. username u = name) (users d)")
    case None
    with Some assms show ?thesis by (simp add: verify_license_def Let_def split: if_splits)
  next
    case j: (Some j)
    show ?thesis
    proof (cases "add_days (datetime_now now) (duration_days (licenses d ! i))")
      case (Inl e)
      with Some j assms show ?thesis
        by (simp add: verify_license_def Let_def split: if_splits)
    next
      case (Inr t)
      note t = add_days_aware_now [OF Inr]
      have st: "stored_DateTime t =
                  \<lparr>dt_us = now + duration_days (licenses d ! i) * us_per_day, tzinfo = None\<rparr>"
        by (simp add: t stored_DateTime_def replace_tzinfo_def)
      show ?thesis
      proof (cases "l_is_used (licenses d ! i) \<noteq> 1 \<and> ok")
        case False
        have "\<exists>err. fst (verify_license d now ok name k) = Inl err"
        proof (cases "l_is_used (licenses d ! i) = 1")
          case True
          with Some show ?thesis by (simp add: verify_license_def Let_def)
        next
          case nu: False
          with False have "\<not> ok" by simp
          with nu Some j Inr show ?thesis
            by (simp add: verify_license_def commit_def Let_def)
        qed
        with assms show ?thesis by auto
      next
        case True
        with Some j Inr assms
        have "body = (''Account activated successfully'', isoformat t) \<and>
              snd (verify_license d now ok name k) =
                d\<lparr>users := (users d)[j := (users d ! j)\<lparr>is_active := True,
                         expiration_date := Some (stored_DateTime t)\<rparr>],
                  licenses := (licenses d)[i := (licenses d ! i)\<lparr>l_is_used := 1\<rparr>]\<rparr>"
          by (auto simp: verify_license_def commit_def Let_def)
        with Some j show ?thesis by (simp add: st) (simp add: t)
      qed
    qed
  qed
qed

lemma activate_code_Inr_True:
  assumes "fst (activate_code d now ok c uid) = Inr (True, m, x)"
  shows "\<exists>i j e. first_index (\<lambda>r. code r = c) (license_codes d) = Some i \<and>
           first_index (\<lambda>u. u_id u = uid) (users d) = Some j \<and>
           expires_at (license_codes d ! i) = Some e \<and> tzinfo e = None \<and>
           snd (activate_code d now ok c uid) =
             d\<lparr>license_codes :=
                  (license_codes d)[i := (license_codes d ! i)\<lparr>is_used := True,
                                                                used_by := Some uid\<rparr>],
                users :=
                  (users d)[j := (users d ! j)\<lparr>is_active := True,
                                                   expiration_date := Some e\<rparr>]\<rparr>"
proof (cases "fst (validate_code d now c)")
  case (Inl err)
  with validate_code_pair [of d now c] have "validate_code d now c = (Inl err, d)" by simp
  with assms show ?thesis by (simp add: activate_code_raised)
next
  case (Inr t)
  obtain b m' x' where t: "t = (b, m', x')" by (cases t)
  with Inr validate_code_pair [of d now c]
  have v: "validate_code d now c = (Inr (b, m', x'), d)" by simp
  show ?thesis
  proof (cases b)
    case False
    with v assms show ?thesis by (simp add: activate_code_invalid)
  next
    case True
    from validate_code_True [of d now c m' x'] v True
    obtain i e where i: "first_index (\<lambda>r. code r = c) (license_codes d) = Some i"
      and e: "expires_at (license_codes d ! i) = Some e" "tzinfo e = None" by auto
    show ?thesis
    proof (cases "first_index (\<lambda>u. u_id u = uid) (users d)")
      case None
      with v True assms show ?thesis by (simp add: activate_code_no_user)
    next
      case (Some j)
      from activate_code_commit [of d now c m' x' i uid j ok] v True i Some assms
      have "snd (activate_code d now ok c uid) =
             d\<lparr>license_codes :=
                  (license_codes d)[i := (license_codes d ! i)\<lparr>is_used := True,
                                                                used_by := Some uid\<rparr>],
                users :=
                  (users d)[j := (users d ! j)\<lparr>is_active := True,
                                                   expiration_date := Some e\<rparr>]\<rparr>"
        by (cases ok) (simp_all add: e)
      with i Some e show ?thesis by blast
    qed
  qed
qed

lemma login_active:
  "first_index (\<lambda>u. username u = name) (users d) = Some j \<Longrightarrow>
   verify pw (password (users d ! j)) \<Longrightarrow> is_active (users d ! j) \<Longrightarrow>
   expiration_date (users d ! j) = Some e \<Longrightarrow>
   fst (login verify d now True name pw) =
     (if dt_us e < now
      then Inr (JSONResponse 403 ''Subscription expired. Please renew your license.''
                  (u_id (users d ! j)))
      else Inr (LoginBody ''Login Successful'' (Some (isoformat e))))"
  by (simp add: login_def dt_less_aware_now commit_def Let_def)

text \<open>
  C9. Every timestamp a request stores is a naive value read off the UTC clock.
  \<^verbatim>\<open>create_license_code\<close> stores \<^verbatim>\<open>created_at\<close> as the current UTC reading and
  \<^verbatim>\<open>expires_at\<close> as that reading plus the duration, both without zone. A successful
  \<^verbatim>\<open>activate_code\<close> stores the code's naive \<^verbatim>\<open>expires_at\<close> as the account's
  \<^verbatim>\<open>expiration_date\<close>. A successful \<^verbatim>\<open>verify_license\<close> stores the current UTC reading
  plus the grant's duration, without zone, as the account's \<^verbatim>\<open>expiration_date\<close>. Hence
  tables whose timestamps are all naive stay so under every sequence of requests (the
  empty tables are such tables). The two comparisons against the current time decide by
  the same relation, the stored reading being earlier than the current UTC reading:
  \<^verbatim>\<open>validate_code\<close> strips the zone of the current time and compares it with the
  stored \<^verbatim>\<open>expires_at\<close>; \<^verbatim>\<open>login\<close> attaches UTC to the stored \<^verbatim>\<open>expiration_date\<close>
  and compares it with the aware current time.
\<close>

theorem stored_timestamps_naive:
  "(timestamps_naive d \<longrightarrow> timestamps_naive (run hash verify d rs))
   \<and> (create_license_code d now ok gen days = (Inr lc, d') \<longrightarrow>
        lc \<in> set (license_codes d')
        \<and> created_at lc = Some \<lparr>dt_us = now, tzinfo = None\<rparr>
        \<and> expires_at lc = Some \<lparr>dt_us = now + days * us_per_day, tzinfo = None\<rparr>)
   \<and> (fst (activate_code d now ok c uid) = Inr (True, m, x) \<longrightarrow>
        (\<exists>i j e. expires_at (license_codes d ! i) = Some e \<and> tzinfo e = None \<and>
           snd (activate_code d now ok c uid) =
             d\<lparr>license_codes :=
                  (license_codes d)[i := (license_codes d ! i)\<lparr>is_used := True,
                                                                used_by := Some uid\<rparr>],
                users :=
                  (users d)[j := (users d ! j)\<lparr>is_active := True,
                                                   expiration_date := Some e\<rparr>]\<rparr>))
   \<and> (fst (verify_license d now ok name k) = Inr body \<longrightarrow>
        (\<exists>i j. snd (verify_license d now ok name k) =
             d\<lparr>users := (users d)[j := (users d ! j)\<lparr>is_active := True,
                   expiration_date :=
                     Some \<lparr>dt_us = now + duration_days (licenses d ! i) * us_per_day,
                           tzinfo = None\<rparr>\<rparr>],
               licenses := (licenses d)[i := (licenses d ! i)\<lparr>l_is_used := 1\<rparr>]\<rparr>))
   \<and> (first_index (\<lambda>r. code r = c) (license_codes d) = Some n \<and>
       \<not> is_used (license_codes d ! n) \<and>
       expires_at (license_codes d ! n) = Some t \<and> tzinfo t = None \<longrightarrow>
        fst (validate_code d now c) =
          (if dt_us t < now then Inr (False, ''License code has expired'', None)
           else Inr (True, ''License code is valid'', Some (isoformat t))))
   \<and> (first_index (\<lambda>u. username u = name) (users d) = Some p \<and>
       verify pw (password (users d ! p)) \<and> is_active (users d ! p) \<and>
       expiration_date (users d ! p) = Some t \<longrightarrow>
        fst (login verify d now True name pw) =
          (if dt_us t < now
           then Inr (JSONResponse 403 ''Subscription expired. Please renew your license.''
                       (u_id (users d ! p)))
           else Inr (LoginBody ''Login Successful'' (Some (isoformat t)))))"
proof (intro conjI impI)
  assume "timestamps_naive d"
  then show "timestamps_naive (run hash verify d rs)" by (rule timestamps_naive_run)
next
  assume a: "create_license_code d now ok gen days = (Inr lc, d')"
  note r = create_license_code_Inr [OF a]
  from r show "lc \<in> set (license_codes d')" by simp
  from r show "created_at lc = Some \<lparr>dt_us = now, tzinfo = None\<rparr>" by simp
  from r show "expires_at lc = Some \<lparr>dt_us = now + days * us_per_day, tzinfo = None\<rparr>"
    by simp
next
  assume "fst (activate_code d now ok c uid) = Inr (True, m, x)"
  from activate_code_Inr_True [OF this]
  show "\<exists>i j e. expires_at (license_codes d ! i) = Some e \<and> tzinfo e = None \<and>
           snd (activate_code d now ok c uid) =
             d\<lparr>license_codes :=
                  (license_codes d)[i := (license_codes d ! i)\<lparr>is_used := True,
                                                                used_by := Some uid\<rparr>],
                users :=
                  (users d)[j := (users d ! j)\<lparr>is_active := True,
                                                   expiration_date := Some e\<rparr>]\<rparr>"
    by blast
next
  assume "fst (verify_license d now ok name k) = Inr body"
  from verify_license_Inr [OF this]
  show "\<exists>i j. snd (verify_license d now ok name k) =
             d\<lparr>users := (users d)[j := (users d ! j)\<lparr>is_active := True,
                   expiration_date :=
                     Some \<lparr>dt_us = now + duration_days (licenses d ! i) * us_per_day,
                           tzinfo = None\<rparr>\<rparr>],
               licenses := (licenses d)[i := (licenses d ! i)\<lparr>l_is_used := 1\<rparr>]\<rparr>"
    by blast
next
  assume "first_index (\<lambda>r. code r = c) (license_codes d) = Some n \<and>
       \<not> is_used (license_codes d ! n) \<and>
       expires_at (license_codes d ! n) = Some t \<and> tzinfo t = None"
  then show "fst (validate_code d now c) =
          (if dt_us t < now then Inr (False, ''License code has expired'', None)
           else Inr (True, ''License code is valid'', Some (isoformat t)))"
    by (simp add: validate_code_unused)
next
  assume a: "first_index (\<lambda>u. username u = name) (users d) = Some p \<and>
       verify pw (password (users d ! p)) \<and> is_active (users d ! p) \<and>
       expiration_date (users d ! p) = Some t"
  then have 1: "first_index (\<lambda>u. username u = name) (users d) = Some p"
    and 2: "verify pw (password (users d ! p))" and 3: "is_active (users d ! p)"
    and 4: "expiration_date (users d ! p) = Some t" by simp_all
  show "fst (login verify d now True name pw) =
          (if dt_us t < now
           then Inr (JSONResponse 403 ''Subscription expired. Please renew your license.''
                       (u_id (users d ! p)))
           else Inr (LoginBody ''Login Successful'' (Some (isoformat t))))"
    by (rule login_active [where verify = verify and pw = pw, OF 1 2 3 4])
qed

theorem stored_timestamps_naive_witness:
  "timestamps_naive sample_db
   \<and> timestamps_naive
        (run plain_hash plain_verify sample_db
           [(63871286400000000, True, VerifyLicense ''alice'' ''K-FRESH''),
            (63871286400000000, True, Generate ''FRESH2'' 30),
            (63871286400000000, True, Activate ''FRESH'' 3)])
   \<and> create_license_code empty_db 63871286400000000 True ''ABCDEFGHIJKLMNOP'' 30 =
       (Inr \<lparr>c_id = 1, code = ''ABCDEFGHIJKLMNOP'', is_used = False,
             created_at = Some \<lparr>dt_us = 63871286400000000, tzinfo = None\<rparr>,
             expires_at = Some \<lparr>dt_us = 63873878400000000, tzinfo = None\<rparr>,
             used_by = None\<rparr>,
        empty_db\<lparr>license_codes := license_codes empty_db @
           [\<lparr>c_id = 1, code = ''ABCDEFGHIJKLMNOP'', is_used = False,
             created_at = Some \<lparr>dt_us = 63871286400000000, tzinfo = None\<rparr>,
             expires_at = Some \<lparr>dt_us = 63873878400000000, tzinfo = None\<rparr>,
             used_by = None\<rparr>]\<rparr>)
   \<and> created_at \<lparr>c_id = 1, code = ''ABCDEFGHIJKLMNOP'', is_used = False,
             created_at = Some \<lparr>dt_us = 63871286400000000, tzinfo = None\<rparr>,
             expires_at = Some \<lparr>dt_us = 63873878400000000, tzinfo = None\<rparr>,
             used_by = None\<rparr> = Some \<lparr>dt_us = 63871286400000000, tzinfo = None\<rparr>
   \<and> expires_at \<lparr>c_id = 1, code = ''ABCDEFGHIJKLMNOP'', is_used = False,
             created_at = Some \<lparr>dt_us = 63871286400000000, tzinfo = None\<rparr>,
             expires_at = Some \<lparr>dt_us = 63873878400000000, tzinfo = None\<rparr>,
             used_by = None\<rparr> =
         Some \<lparr>dt_us = 63871286400000000 + 30 * us_per_day, tzinfo = None\<rparr>
   \<and> fst (activate_code sample_db 63871286400000000 True ''FRESH'' 1) =
       Inr (True, ''License activated successfully'',
            Some (isoformat \<lparr>dt_us = 63873878400000000, tzinfo = None\<rparr>))
   \<and> (\<exists>i j e. expires_at (license_codes sample_db ! i) = Some e \<and> tzinfo e = None \<and>
          snd (activate_code sample_db 63871286400000000 True ''FRESH'' 1) =
            sample_db\<lparr>license_codes :=
                 (license_codes sample_db)[i := (license_codes sample_db ! i)
                                                  \<lparr>is_used := True, used_by := Some 1\<rparr>],
               users :=
                 (users sample_db)[j := (users sample_db ! j)
                                          \<lparr>is_active := True, expiration_date := Some e\<rparr>]\<rparr>)
   \<and> fst (verify_license sample_db 63871286400000000 True ''alice'' ''K-FRESH'') =
       Inr (''Account activated successfully'',
            isoformat \<lparr>dt_us = 63873878400000000, tzinfo = Some UTC\<rparr>)
   \<and> (\<exists>i j. snd (verify_license sample_db 63871286400000000 True ''alice'' ''K-FRESH'') =
          sample_db\<lparr>users := (users sample_db)[j := (users sample_db ! j)
               \<lparr>is_active := True,
                expiration_date :=
                  Some \<lparr>dt_us = 63871286400000000 +
                                 duration_days (licenses sample_db ! i) * us_per_day,
                        tzinfo = None\<rparr>\<rparr>],
             licenses := (licenses sample_db)[i := (licenses sample_db ! i)
                                                     \<lparr>l_is_used := 1\<rparr>]\<rparr>)
   \<and> fst (validate_code sample_db 63871286400000000 ''STALE'') =
       Inr (False, ''License code has expired'', None)
   \<and> fst (login plain_verify sample_db 63871286400000000 True ''bob'' ''b'') =
       Inr (JSONResponse 403 ''Subscription expired. Please renew your license.'' 2)"
proof -
  let ?N = "63871286400000000 :: int"
  let ?lc = "\<lparr>c_id = 1, code = ''ABCDEFGHIJKLMNOP'', is_used = False,
             created_at = Some \<lparr>dt_us = 63871286400000000, tzinfo = None\<rparr>,
             expires_at = Some \<lparr>dt_us = 63873878400000000, tzinfo = None\<rparr>,
             used_by = None\<rparr>"
  let ?rs = "[(?N, True, VerifyLicense ''alice'' ''K-FRESH''),
              (?N, True, Generate ''FRESH2'' 30),
              (?N, True, Activate ''FRESH'' 3)]"
  have tn: "timestamps_naive sample_db"
    by (simp add: timestamps_naive_def naive_or_null_def sample_db_def sample_codes_def
          sample_users_def)
  have cr: "create_license_code empty_db ?N True ''ABCDEFGHIJKLMNOP'' 30 =
     (Inr ?lc, empty_db\<lparr>license_codes := license_codes empty_db @ [?lc]\<rparr>)"
    by (simp add: create_license_code_def naive_now add_days_naive_now commit_def Let_def
          empty_db_def next_id_def us_per_day_def max_us_def)
  have f: "first_index (\<lambda>r. code r = ''FRESH'') (license_codes sample_db) = Some 0"
    "\<not> is_used (license_codes sample_db ! 0)"
    "expires_at (license_codes sample_db ! 0) =
       Some \<lparr>dt_us = 63873878400000000, tzinfo = None\<rparr>"
    "tzinfo \<lparr>dt_us = 63873878400000000, tzinfo = None\<rparr> = None"
    by (simp_all add: sample_db_def sample_codes_def)
  have u1: "first_index (\<lambda>u. u_id u = 1) (users sample_db) = Some 0"
    by (simp add: sample_db_def sample_users_def)
  have vf: "validate_code sample_db ?N ''FRESH'' =
              (Inr (True, ''License code is valid'',
                    Some (isoformat \<lparr>dt_us = 63873878400000000, tzinfo = None\<rparr>)),
               sample_db)"
    using validate_code_unused [OF f, of ?N] by simp
  have ac: "fst (activate_code sample_db ?N True ''FRESH'' 1) =
       Inr (True, ''License activated successfully'',
            Some (isoformat \<lparr>dt_us = 63873878400000000, tzinfo = None\<rparr>))"
    using activate_code_commit [OF vf f(1) u1, of True] f(3) by simp
  have ad: "add_days (datetime_now ?N) 30 =
             Inr \<lparr>dt_us = 63873878400000000, tzinfo = Some UTC\<rparr>"
    by (simp add: add_days_def datetime_now_def us_per_day_def max_us_def)
  have vl: "fst (verify_license sample_db ?N True ''alice'' ''K-FRESH'') =
       Inr (''Account activated successfully'',
            isoformat \<lparr>dt_us = 63873878400000000, tzinfo = Some UTC\<rparr>)"
    by (simp add: verify_license_def sample_db_def sample_users_def sample_licenses_def
          ad commit_def Let_def)
  have st: "first_index (\<lambda>r. code r = ''STALE'') (license_codes sample_db) = Some 2
           \<and> \<not> is_used (license_codes sample_db ! 2)
           \<and> expires_at (license_codes sample_db ! 2) =
               Some \<lparr>dt_us = 63871200000000000, tzinfo = None\<rparr>
           \<and> tzinfo \<lparr>dt_us = 63871200000000000, tzinfo = None\<rparr> = None"
    by (simp add: sample_db_def sample_codes_def)
  have bob: "first_index (\<lambda>u. username u = ''bob'') (users sample_db) = Some 1
           \<and> plain_verify ''b'' (password (users sample_db ! 1))
           \<and> is_active (users sample_db ! 1)
           \<and> expiration_date (users sample_db ! 1) =
               Some \<lparr>dt_us = 63871200000000000, tzinfo = None\<rparr>"
    by (simp add: sample_db_def sample_users_def plain_verify_def)
  have bid: "u_id (users sample_db ! 1) = 2"
    by (simp add: sample_db_def sample_users_def)
  note w = stored_timestamps_naive [where now = ?N]
  from w [where d = sample_db and hash = plain_hash and verify = plain_verify
            and rs = ?rs] tn
  have 1: "timestamps_naive (run plain_hash plain_verify sample_db ?rs)" by blast
  from w [where d = empty_db and ok = True and gen = "''ABCDEFGHIJKLMNOP''" and days = 30
            and lc = ?lc
            and d' = "empty_db\<lparr>license_codes := license_codes empty_db @ [?lc]\<rparr>"] cr
  have 2: "created_at ?lc = Some \<lparr>dt_us = ?N, tzinfo = None\<rparr>
           \<and> expires_at ?lc = Some \<lparr>dt_us = ?N + 30 * us_per_day, tzinfo = None\<rparr>"
    by blast
  from w [where d = sample_db and ok = True and c = "''FRESH''" and uid = 1
            and m = "''License activated successfully''"
            and x = "Some (isoformat \<lparr>dt_us = 63873878400000000, tzinfo = None\<rparr>)"] ac
  have 3: "\<exists>i j e. expires_at (license_codes sample_db ! i) = Some e \<and> tzinfo e = None \<and>
          snd (activate_code sample_db ?N True ''FRESH'' 1) =
            sample_db\<lparr>license_codes :=
                 (license_codes sample_db)[i := (license_codes sample_db ! i)
                                                  \<lparr>is_used := True, used_by := Some 1\<rparr>],
               users :=
                 (users sample_db)[j := (users sample_db ! j)
                                          \<lparr>is_active := True, expiration_date := Some e\<rparr>]\<rparr>"
    by blast
  from w [where d = sample_db and ok = True and name = "''alice''" and k = "''K-FRESH''"
            and body = "(''Account activated successfully'',
                         isoformat \<lparr>dt_us = 63873878400000000, tzinfo = Some UTC\<rparr>)"] vl
  have 4: "\<exists>i j. snd (verify_license sample_db ?N True ''alice'' ''K-FRESH'') =
          sample_db\<lparr>users := (users sample_db)[j := (users sample_db ! j)
               \<lparr>is_active := True,
                expiration_date :=
                  Some \<lparr>dt_us = ?N + duration_days (licenses sample_db ! i) * us_per_day,
                        tzinfo = None\<rparr>\<rparr>],
             licenses := (licenses sample_db)[i := (licenses sample_db ! i)
                                                     \<lparr>l_is_used := 1\<rparr>]\<rparr>"
    by blast
  from w [where d = sample_db and c = "''STALE''" and n = 2
            and t = "\<lparr>dt_us = 63871200000000000, tzinfo = None\<rparr>"] st
  have "fst (validate_code sample_db ?N ''STALE'') =
          (if dt_us \<lparr>dt_us = 63871200000000000, tzinfo = None\<rparr> < ?N
           then Inr (False, ''License code has expired'', None)
           else Inr (True, ''License code is valid'',
                     Some (isoformat \<lparr>dt_us = 63871200000000000, tzinfo = None\<rparr>)))"
    by blast
  then have 5: "fst (validate_code sample_db ?N ''STALE'') =
       Inr (False, ''License code has expired'', None)" by simp
  from w [where d = sample_db and verify = plain_verify and name = "''bob''"
            and pw = "''b''" and p = 1
            and t = "\<lparr>dt_us = 63871200000000000, tzinfo = None\<rparr>"] bob
  have "fst (login plain_verify sample_db ?N True ''bob'' ''b'') =
          (if dt_us \<lparr>dt_us = 63871200000000000, tzinfo = None\<rparr> < ?N
           then Inr (JSONResponse 403 ''Subscription expired. Please renew your license.''
                       (u_id (users sample_db ! 1)))
           else Inr (LoginBody ''Login Successful''
                       (Some (isoformat \<lparr>dt_us = 63871200000000000, tzinfo = None\<rparr>))))"
    by blast
  then have 6: "fst (login plain_verify sample_db ?N True ''bob'' ''b'') =
       Inr (JSONResponse 403 ''Subscription expired. Please renew your license.'' 2)"
    using bid by simp
  from tn 1 cr 2 ac 3 vl 4 5 6 show ?thesis by blast
qed

end
